theory Spec2Isabelle
  imports Main "HOL-Library.Multiset" "HOL-Library.Sublist"
begin

section \<open>Python values shared by the components\<close>

text \<open>
  Exceptions are values. \<open>ApiException s\<close> is the Kubernetes client's exception carrying
  the HTTP status \<open>s\<close> of the cluster's answer; \<open>OtherError\<close> stands for any exception that
  is not an \<open>ApiException\<close> (a transport failure inside the client, for instance).
\<close>

datatype py_exn =
    ValueError string
  | PlainException string
  | ApiException nat
  | OtherError string

text \<open>What one call of the cluster client does: return, or raise.\<close>

datatype api_outcome = Succeeds | RaisesApi nat | RaisesOther string

fun raised :: "api_outcome \<Rightarrow> py_exn option" where
  "raised Succeeds = None"
| "raised (RaisesApi s) = Some (ApiException s)"
| "raised (RaisesOther m) = Some (OtherError m)"

text \<open>\<open>str(n)\<close> for Python integers, as the f-strings of the source print them.\<close>

definition digit_char :: "nat \<Rightarrow> char" where
  "digit_char d = char_of (48 + d)"

fun str_nat :: "nat \<Rightarrow> string" where
  "str_nat n = (if n < 10 then [digit_char n] else str_nat (n div 10) @ [digit_char (n mod 10)])"

declare str_nat.simps [simp del]

definition str_int :: "int \<Rightarrow> string" where
  "str_int i = (if i < 0 then CHR ''-'' # str_nat (nat (- i)) else str_nat (nat i))"

text \<open>
  \<open>int(x * 1.5)\<close> for a Python integer \<open>x\<close>: the product is a float and \<open>int\<close> truncates
  it toward zero. The float product is exact while \<open>3 * |x|\<close> stays below \<open>2 ^ 53\<close>; the
  model computes with exact integers throughout.
\<close>

definition int_times_1_5 :: "int \<Rightarrow> int" where
  "int_times_1_5 x = (if 0 \<le> x then (3 * x) div 2 else - ((3 * (- x)) div 2))"

section \<open>Deployment Orchestrator (kubernetes.py)\<close>

definition RUNTIME_IMAGES :: "(string \<times> string) list" where
  "RUNTIME_IMAGES =
    [(''python3.9'', ''fnbox-python:3.9''),
     (''python3.10'', ''fnbox-python:3.10''),
     (''python3.11'', ''fnbox-python:3.11''),
     (''python3.12'', ''fnbox-python:3.12''),
     (''python3.13'', ''fnbox-python:3.13''),
     (''python3.14'', ''fnbox-python:3.14''),
     (''nodejs20'', ''fnbox-nodejs:20''),
     (''nodejs24'', ''fnbox-nodejs:24''),
     (''nodejs25'', ''fnbox-nodejs:25''),
     (''ruby3.4'', ''fnbox-ruby:3.4''),
     (''java27'', ''fnbox-java:27''),
     (''dotnet8'', ''fnbox-dotnet:8''),
     (''dotnet9'', ''fnbox-dotnet:9''),
     (''dotnet10'', ''fnbox-dotnet:10''),
     (''bash5'', ''fnbox-bash:5''),
     (''go1.25'', ''fnbox-go:1.25'')]"

text \<open>
  The resource part of the container that \<open>_create_deployment\<close> builds: two dictionaries
  from resource name to a Kubernetes quantity string.
\<close>

record resource_requirements =
  requests :: "(string \<times> string) list"
  limits :: "(string \<times> string) list"

definition container_resources :: "int \<Rightarrow> int \<Rightarrow> resource_requirements" where
  "container_resources memory_mb cpu_millicores =
    \<lparr> requests =
        [(''memory'', str_int memory_mb @ ''Mi''),
         (''cpu'', str_int cpu_millicores @ ''m''),
         (''ephemeral-storage'', ''1Gi'')],
      limits =
        [(''memory'', str_int (int_times_1_5 memory_mb) @ ''Mi''),
         (''cpu'', str_int (int_times_1_5 cpu_millicores) @ ''m''),
         (''ephemeral-storage'', ''2Gi'')] \<rparr>"

text \<open>The calls the orchestrator makes on the cluster, in the order it makes them.\<close>

datatype k8s_call =
    CreateConfigMap string string
  | PatchConfigMap string string
  | CreateDeployment string string resource_requirements nat "string list"
  | CreateService string string
  | CreateHPA string string
  | ReadDeployment string
  | Sleep nat
  | ListPods string
  | DeleteHPA string
  | DeleteService string
  | DeleteDeployment string
  | DeleteConfigMap string

text \<open>
  One readiness poll of \<open>_wait_for_deployment\<close>: the deployment's \<open>ready_replicas\<close>
  (\<open>None\<close> in the client is \<open>0\<close> here, both are falsy), or an exception.
\<close>

datatype poll_outcome = ReadyReplicas nat | PollApiError nat | PollOtherError string

text \<open>
  \<open>_wait_for_deployment(name, timeout)\<close>. The loop compares wall-clock time with the
  timeout; the model uses a virtual clock on which only \<open>time.sleep(2)\<close> takes time, so
  the \<open>i\<close>-th poll happens at second \<open>2 * i\<close>. Real calls take time as well, so the code
  polls at most as often as the model does.
\<close>

function wait_for_deployment ::
  "(nat \<Rightarrow> poll_outcome) \<Rightarrow> string \<Rightarrow> int \<Rightarrow> nat \<Rightarrow> k8s_call list \<times> (py_exn + bool)" where
  "wait_for_deployment polls name timeout i =
    (if int (2 * i) < timeout then
       (case polls i of
          ReadyReplicas r \<Rightarrow>
            if r > 0 then ([ReadDeployment name], Inr True)
            else (case wait_for_deployment polls name timeout (Suc i) of
                    (t, res) \<Rightarrow> (ReadDeployment name # Sleep 2 # t, res))
        | PollApiError s \<Rightarrow>
            (case wait_for_deployment polls name timeout (Suc i) of
               (t, res) \<Rightarrow> (ReadDeployment name # Sleep 2 # t, res))
        | PollOtherError m \<Rightarrow> ([ReadDeployment name], Inl (OtherError m)))
     else ([], Inr False))"
  by pat_completeness auto
termination
  by (relation "measure (\<lambda>(polls, name, timeout, i). nat timeout - 2 * i)") auto

declare wait_for_deployment.simps [simp del]

text \<open>Everything of the cluster that \<open>deploy_function\<close> observes.\<close>

record deploy_env =
  cm_create :: api_outcome
  cm_patch :: api_outcome
  dep_create :: api_outcome
  svc_create :: api_outcome
  svc_cluster_ip :: string
  hpa_create :: api_outcome
  ready_polls :: "nat \<Rightarrow> poll_outcome"
  pods_list :: "py_exn + string list"

definition create_function_configmap ::
  "deploy_env \<Rightarrow> string \<Rightarrow> string \<Rightarrow> k8s_call list \<times> py_exn option" where
  "create_function_configmap env name code =
    (case cm_create env of
       Succeeds \<Rightarrow> ([CreateConfigMap name code], None)
     | RaisesApi s \<Rightarrow>
         if s = 409 then ([CreateConfigMap name code, PatchConfigMap name code], raised (cm_patch env))
         else ([CreateConfigMap name code], Some (ApiException s))
     | RaisesOther m \<Rightarrow> ([CreateConfigMap name code], Some (OtherError m)))"

definition create_deployment ::
  "deploy_env \<Rightarrow> string \<Rightarrow> string \<Rightarrow> string \<Rightarrow> int \<Rightarrow> int \<Rightarrow> nat \<Rightarrow> string list
     \<Rightarrow> k8s_call list \<times> py_exn option" where
  "create_deployment env name function_id img memory_mb cpu_millicores replicas dependencies =
    ([CreateDeployment name img (container_resources memory_mb cpu_millicores) replicas dependencies],
     raised (dep_create env))"

definition create_service :: "deploy_env \<Rightarrow> string \<Rightarrow> string \<Rightarrow> k8s_call list \<times> py_exn option" where
  "create_service env name deployment_name =
    ([CreateService name deployment_name], raised (svc_create env))"

text \<open>\<open>_create_hpa\<close> swallows every \<open>ApiException\<close>; other exceptions propagate.\<close>

definition create_hpa :: "deploy_env \<Rightarrow> string \<Rightarrow> k8s_call list \<times> py_exn option" where
  "create_hpa env deployment_name =
    ([CreateHPA (deployment_name @ ''-hpa'') deployment_name],
     (case hpa_create env of
        Succeeds \<Rightarrow> None
      | RaisesApi s \<Rightarrow> None
      | RaisesOther m \<Rightarrow> Some (OtherError m)))"

definition deployment_timeout :: "'a list \<Rightarrow> int" where
  "deployment_timeout dependencies =
    (let base_timeout = 60;
         per_package_timeout = 10;
         calculated_timeout = base_timeout + (int (length dependencies) * per_package_timeout)
     in min calculated_timeout 300)"

text \<open>
  The dictionary \<open>deploy_function\<close> returns; its keys are \<open>deployment_name\<close>,
  \<open>service_name\<close>, \<open>service_ip\<close>, \<open>pod_name\<close> and \<open>status\<close>.
\<close>

record deployment_info =
  info_deployment_name :: string
  info_service_name :: string
  info_service_ip :: string
  info_pod_name :: "string option"
  info_status :: string

text \<open>
  \<open>deploy_function\<close>. \<open>cpu_millicores\<close> is \<open>int(float(vcpu_count) * 1000)\<close> in the source,
  a floating-point conversion of a decimal; the model takes its integer result as the
  argument.
\<close>

definition deploy_function ::
  "deploy_env \<Rightarrow> string \<Rightarrow> string \<Rightarrow> string \<Rightarrow> string list \<Rightarrow> int \<Rightarrow> int \<Rightarrow> int
     \<Rightarrow> k8s_call list \<times> (py_exn + deployment_info)" where
  "deploy_function env function_id runtime code dependencies memory_mb timeout_seconds cpu_millicores =
    (let dname = ''func-'' @ take 8 function_id;
         sname = dname @ ''-svc''
     in case map_of RUNTIME_IMAGES runtime of
          None \<Rightarrow> ([], Inl (ValueError (''Unsupported runtime: '' @ runtime)))
        | Some img \<Rightarrow>
            (case create_function_configmap env dname code of
               (t1, Some e) \<Rightarrow> (t1, Inl e)
             | (t1, None) \<Rightarrow>
            (case create_deployment env dname function_id img memory_mb cpu_millicores 1 dependencies of
               (t2, Some e) \<Rightarrow> (t1 @ t2, Inl e)
             | (t2, None) \<Rightarrow>
            (case create_service env sname dname of
               (t3, Some e) \<Rightarrow> (t1 @ t2 @ t3, Inl e)
             | (t3, None) \<Rightarrow>
            (case create_hpa env dname of
               (t4, Some e) \<Rightarrow> (t1 @ t2 @ t3 @ t4, Inl e)
             | (t4, None) \<Rightarrow>
            (case wait_for_deployment (ready_polls env) dname (deployment_timeout dependencies) 0 of
               (t5, Inl e) \<Rightarrow> (t1 @ t2 @ t3 @ t4 @ t5, Inl e)
             | (t5, Inr ready) \<Rightarrow>
                 if \<not> ready then
                   (t1 @ t2 @ t3 @ t4 @ t5,
                    Inl (PlainException (''Deployment '' @ dname @ '' failed to become ready'')))
                 else
                   (case pods_list env of
                      Inl e \<Rightarrow> (t1 @ t2 @ t3 @ t4 @ t5 @ [ListPods dname], Inl e)
                    | Inr pods \<Rightarrow>
                        (t1 @ t2 @ t3 @ t4 @ t5 @ [ListPods dname],
                         Inr \<lparr> info_deployment_name = dname,
                               info_service_name = sname,
                               info_service_ip = svc_cluster_ip env,
                               info_pod_name = (case pods of [] \<Rightarrow> None | p # ps \<Rightarrow> Some p),
                               info_status = ''running'' \<rparr>))))))))"


text \<open>
  \<open>delete_function(deployment_name)\<close>. Each of the four deletions is wrapped in
  \<open>try ... except ApiException\<close>: status 404 is ignored, any other status is logged as a
  warning, and in both cases the function goes on. An exception that is not an
  \<open>ApiException\<close> is not caught. The waiting loop reads the deployment up to 30 times;
  it sleeps one second after a read that succeeds, stops at a 404, and goes to the next
  iteration without sleeping after any other \<open>ApiException\<close>.
\<close>

record delete_env =
  hpa_delete :: api_outcome
  svc_delete :: api_outcome
  dep_delete :: api_outcome
  dep_reads :: "nat \<Rightarrow> api_outcome"
  cm_delete :: api_outcome

fun wait_deleted :: "(nat \<Rightarrow> api_outcome) \<Rightarrow> string \<Rightarrow> nat \<Rightarrow> nat \<Rightarrow> k8s_call list \<times> py_exn option" where
  "wait_deleted reads name i 0 = ([], None)"
| "wait_deleted reads name i (Suc k) =
    (case reads i of
       Succeeds \<Rightarrow>
         (case wait_deleted reads name (Suc i) k of
            (t, r) \<Rightarrow> (ReadDeployment name # Sleep 1 # t, r))
     | RaisesApi s \<Rightarrow>
         if s = 404 then ([ReadDeployment name], None)
         else (case wait_deleted reads name (Suc i) k of
                 (t, r) \<Rightarrow> (ReadDeployment name # t, r))
     | RaisesOther m \<Rightarrow> ([ReadDeployment name], Some (OtherError m)))"

text \<open>One guarded deletion: the exception that escapes it, if any.\<close>

fun tolerated :: "api_outcome \<Rightarrow> py_exn option" where
  "tolerated Succeeds = None"
| "tolerated (RaisesApi s) = None"
| "tolerated (RaisesOther m) = Some (OtherError m)"

definition delete_function :: "delete_env \<Rightarrow> string \<Rightarrow> k8s_call list \<times> py_exn option" where
  "delete_function env dname =
    (let sname = dname @ ''-svc'';
         hpa_name = dname @ ''-hpa''
     in case tolerated (hpa_delete env) of
          Some e \<Rightarrow> ([DeleteHPA hpa_name], Some e)
        | None \<Rightarrow>
       (case tolerated (svc_delete env) of
          Some e \<Rightarrow> ([DeleteHPA hpa_name, DeleteService sname], Some e)
        | None \<Rightarrow>
       (case tolerated (dep_delete env) of
          Some e \<Rightarrow> ([DeleteHPA hpa_name, DeleteService sname, DeleteDeployment dname], Some e)
        | None \<Rightarrow>
       (case wait_deleted (dep_reads env) dname 0 30 of
          (t, Some e) \<Rightarrow> ([DeleteHPA hpa_name, DeleteService sname, DeleteDeployment dname] @ t, Some e)
        | (t, None) \<Rightarrow>
            ([DeleteHPA hpa_name, DeleteService sname, DeleteDeployment dname] @ t
               @ [DeleteConfigMap dname],
             tolerated (cm_delete env))))))"

text \<open>Readings of a call trace, used to state the properties of the teardown.\<close>

fun sleep_seconds :: "k8s_call list \<Rightarrow> nat" where
  "sleep_seconds [] = 0"
| "sleep_seconds (Sleep n # cs) = n + sleep_seconds cs"
| "sleep_seconds (c # cs) = sleep_seconds cs"

fun is_other :: "api_outcome \<Rightarrow> bool" where
  "is_other (RaisesOther m) = True"
| "is_other outcome = False"

text \<open>No call that \<open>delete_function\<close> can make fails with anything but an \<open>ApiException\<close>.\<close>

definition api_errors_only :: "delete_env \<Rightarrow> bool" where
  "api_errors_only env \<longleftrightarrow>
     \<not> is_other (hpa_delete env) \<and> \<not> is_other (svc_delete env) \<and> \<not> is_other (dep_delete env)
     \<and> (\<forall>i < 30. \<not> is_other (dep_reads env i)) \<and> \<not> is_other (cm_delete env)"

text \<open>The cluster in which every sub-resource is already absent.\<close>

definition all_absent :: delete_env where
  "all_absent =
    \<lparr> hpa_delete = RaisesApi 404, svc_delete = RaisesApi 404, dep_delete = RaisesApi 404,
      dep_reads = (\<lambda>i. RaisesApi 404), cm_delete = RaisesApi 404 \<rparr>"

section \<open>Data model (models.py)\<close>

text \<open>\<open>Function.STATUS_CHOICES\<close> and \<open>FunctionInvocation.STATUS_CHOICES\<close>.\<close>

datatype function_status = FDraft | FDeploying | FActive | FUndeploying | FInactive | FError

datatype invocation_status = IPending | IRunning | ISuccess | IError | ITimeout

text \<open>
  A dependency set attached to a function: its runtime family and its packages in
  their order, each a name and a version specifier (\<open>''\<close> when there is none).
\<close>

record depset =
  runtime_type :: string
  packages :: "(string \<times> string) list"

text \<open>
  A row of \<open>Function\<close>, with the fields the jobs read or write. The three nullable
  character fields are \<open>string option\<close>; \<open>cpu_millicores\<close> stands for
  \<open>int(float(vcpu_count) * 1000)\<close>. Times are integers, in microseconds.
\<close>

record function_row =
  code :: string
  handler :: string
  runtime :: string
  memory_mb :: int
  cpu_millicores :: int
  timeout_seconds :: int
  depsets :: "depset list"
  status :: function_status
  deployment_name :: "string option"
  service_name :: "string option"
  k8s_namespace :: "string option"
  last_deployed_at :: "int option"
  invocation_count :: int
  last_invoked_at :: "int option"

text \<open>
  A row of \<open>FunctionInvocation\<close>. \<open>inv_function\<close> is the foreign key \<open>function\<close>,
  here the uuid of the function. The JSON values \<open>input_data\<close> and \<open>output_data\<close> are strings.
\<close>

record invocation_row =
  inv_id :: nat
  inv_function :: string
  request_id :: string
  inv_status :: invocation_status
  input_data :: string
  output_data :: "string option"
  error_message :: string
  duration_ms :: "int option"
  memory_used_mb :: "int option"
  logs :: string
  created_at :: int
  started_at :: "int option"
  completed_at :: "int option"

text \<open>The two tables, \<open>Function\<close> keyed by uuid and \<open>FunctionInvocation\<close>.\<close>

record db =
  function_table :: "string \<rightharpoonup> function_row"
  invocations :: "invocation_row list"

text \<open>Python truthiness of a nullable string: \<open>None\<close> and \<open>''\<close> are falsy.\<close>

fun truthy :: "string option \<Rightarrow> bool" where
  "truthy None = False"
| "truthy (Some s) = (s \<noteq> [])"

section \<open>Async Task Coordinator: results and guards (tasks.py)\<close>

text \<open>
  What a Celery task does when it ends: it returns a value, or it raises \<open>self.retry\<close>
  with a countdown in seconds and is run again later.
\<close>

datatype 'a celery = Returns 'a | RetryAfter nat

text \<open>The dictionary the invoke and test jobs return.\<close>

record task_result =
  res_success :: bool
  res_error :: "string option"
  res_invocation_id :: "nat option"

definition five_minutes :: int where
  "five_minutes = 5 * 60 * 1000000"

text \<open>
  The circuit breaker's query: the invocations of the function created at or after
  \<open>now - 5 minutes\<close>, newest first, at most ten of them. Equal timestamps are ordered
  as the stable sort leaves them; the database leaves that order open.
\<close>

definition window :: "db \<Rightarrow> string \<Rightarrow> int \<Rightarrow> invocation_row list" where
  "window d fid now =
     filter (\<lambda>inv. inv_function inv = fid \<and> created_at inv \<ge> now - five_minutes) (invocations d)"

definition recent_invocations :: "db \<Rightarrow> string \<Rightarrow> int \<Rightarrow> invocation_row list" where
  "recent_invocations d fid now = take 10 (rev (sort_key created_at (window d fid now)))"

definition circuit_open :: "db \<Rightarrow> string \<Rightarrow> int \<Rightarrow> bool" where
  "circuit_open d fid now =
     (let recent = recent_invocations d fid now in
      if length recent \<ge> 10 then
        (let failures = length (filter (\<lambda>inv. inv_status inv = IError) recent)
         in failures \<ge> 8)
      else False)"

definition running_invocations :: "db \<Rightarrow> string \<Rightarrow> nat" where
  "running_invocations d fid =
     length (filter (\<lambda>inv. inv_function inv = fid \<and> (inv_status inv = IPending \<or> inv_status inv = IRunning))
               (invocations d))"

definition high_failure_rate_msg :: string where
  "high_failure_rate_msg =
     ''Function has high failure rate. Please check function code and try again later.''"

definition too_many_msg :: "nat \<Rightarrow> string" where
  "too_many_msg n =
     ''Too many concurrent invocations ('' @ str_nat n
       @ ''). Please wait for previous invocations to complete.''"

definition rejected :: "string \<Rightarrow> task_result" where
  "rejected msg = \<lparr> res_success = False, res_error = Some msg, res_invocation_id = None \<rparr>"

section \<open>Invocation Gateway (kubernetes.py, invoke_function)\<close>

text \<open>
  The dictionary the agent answers with and the gateway returns. A key that is absent
  is \<open>None\<close>. The gateway's own failure results carry every key but \<open>result\<close>.
\<close>

record agent_result =
  r_success :: "bool option"
  r_result :: "string option"
  r_error :: "string option"
  r_logs :: "string option"
  r_execution_time_ms :: "int option"
  r_memory_used_mb :: "int option"

text \<open>A parsed JSON body: a dictionary, or any other JSON value.\<close>

datatype json_body = JsonDict agent_result | JsonOther string

definition failure_result :: "string \<Rightarrow> string \<Rightarrow> int \<Rightarrow> json_body" where
  "failure_result err lg ms =
     JsonDict \<lparr> r_success = Some False, r_result = None, r_error = Some err, r_logs = Some lg,
                r_execution_time_ms = Some ms, r_memory_used_mb = Some 0 \<rparr>"

text \<open>
  The answer of \<open>requests.post\<close>. \<open>parsed\<close> is what \<open>response.json()\<close> does on the
  body: the value, or the message of the \<open>ValueError\<close> it raises.
\<close>

record http_response =
  status_code :: nat
  reason :: string
  url :: string
  content_type :: "string option"
  body_text :: string
  parsed :: "string + json_body"

datatype post_outcome =
    PostTimeout
  | PostConnectionError string
  | PostOtherError string
  | PostResponse http_response

text \<open>
  The tunnel of the development setup: \<open>kubectl port-forward\<close> is started and, a
  second later, polled. Starting it can raise; the process can have exited.
\<close>

datatype tunnel_outcome = TunnelUp | TunnelSpawnFails string | TunnelExited

record gateway_env =
  in_cluster :: bool
  tunnel :: tunnel_outcome
  post :: post_outcome

text \<open>\<open>sub in s\<close> for Python strings.\<close>

fun contains :: "string \<Rightarrow> string \<Rightarrow> bool" where
  "contains sub [] = (sub = [])"
| "contains sub (c # cs) = (prefix sub (c # cs) \<or> contains sub cs)"

text \<open>
  \<open>str.isspace\<close> on one character, for ASCII: tab, line feed, vertical tab, form
  feed, carriage return, the four separators \<open>0x1c\<close> to \<open>0x1f\<close>, and space.
\<close>

definition py_isspace :: "char \<Rightarrow> bool" where
  "py_isspace c = (let n = (of_char c :: nat) in (9 \<le> n \<and> n \<le> 13) \<or> (28 \<le> n \<and> n \<le> 32))"

text \<open>\<open>not text or text.strip() == ''\<close>: the text is empty or all whitespace.\<close>

definition blank :: "string \<Rightarrow> bool" where
  "blank s = list_all py_isspace s"

text \<open>
  \<open>Response.raise_for_status\<close> of the requests library: an \<open>HTTPError\<close> with this
  message for a status from 400 to 599, nothing for any other status.
\<close>

definition raise_for_status :: "http_response \<Rightarrow> string option" where
  "raise_for_status resp =
     (if 400 \<le> status_code resp \<and> status_code resp < 500 then
        Some (str_nat (status_code resp) @ '' Client Error: '' @ reason resp @ '' for url: '' @ url resp)
      else if 500 \<le> status_code resp \<and> status_code resp < 600 then
        Some (str_nat (status_code resp) @ '' Server Error: '' @ reason resp @ '' for url: '' @ url resp)
      else None)"

text \<open>
  The body of the \<open>try\<close> around the call of the agent, after the request has been sent,
  with its \<open>except\<close> clauses. In the \<open>HTTPError\<close> clause the source tests
  \<open>http_err.response\<close> for truth; a response whose status is an error is falsy
  (\<open>Response.__bool__\<close> is \<open>ok\<close>), so the message says \<open>unknown\<close> and the logs are empty.
\<close>

definition classify_response :: "post_outcome \<Rightarrow> int \<Rightarrow> json_body" where
  "classify_response outcome timeout =
     (case outcome of
        PostTimeout \<Rightarrow>
          failure_result (''Function execution exceeded '' @ str_int timeout @ '' seconds'') [] (timeout * 1000)
      | PostConnectionError m \<Rightarrow>
          failure_result (''Failed to connect to function service: '' @ m) [] 0
      | PostOtherError m \<Rightarrow> failure_result m [] 0
      | PostResponse resp \<Rightarrow>
          (case raise_for_status resp of
             Some http_err \<Rightarrow>
               failure_result (''Function returned HTTP error unknown: '' @ http_err) [] 0
           | None \<Rightarrow>
               (let ctype = (case content_type resp of None \<Rightarrow> [] | Some c \<Rightarrow> c) in
                if \<not> contains ''application/json'' ctype then
                  failure_result (''Function returned non-JSON response (content-type: '' @ ctype @ '')'')
                    (take 500 (body_text resp)) 0
                else if blank (body_text resp) then
                  failure_result ''Function returned empty response'' [] 0
                else
                  (case parsed resp of
                     Inl json_err \<Rightarrow>
                       failure_result (''Failed to parse function response as JSON: '' @ json_err)
                         (take 500 (body_text resp)) 0
                   | Inr v \<Rightarrow> v))))"

text \<open>
  \<open>invoke_function(service_name, event, timeout_seconds, code, handler)\<close>. Outside the
  cluster the tunnel is set up before the \<open>try\<close> whose clauses classify the failures,
  and a tunnel that cannot be set up raises. The request's payload is not modelled: the
  answer is an input. The \<open>finally\<close> clause that stops the tunnel catches every
  exception of its own.
\<close>

definition invoke_function :: "gateway_env \<Rightarrow> string \<Rightarrow> int \<Rightarrow> py_exn + json_body" where
  "invoke_function env sname timeout =
     (if in_cluster env then Inr (classify_response (post env) timeout)
      else
        (case tunnel env of
           TunnelSpawnFails m \<Rightarrow>
             Inl (PlainException (''Could not establish port-forward to '' @ sname @ '': '' @ m))
         | TunnelExited \<Rightarrow>
             Inl (PlainException (''Could not establish port-forward to '' @ sname
                    @ '': kubectl port-forward process exited unexpectedly''))
         | TunnelUp \<Rightarrow> Inr (classify_response (post env) timeout)))"

text \<open>A result of the gateway's failure form: every key present but \<open>result\<close>, \<open>success\<close> false.\<close>

fun structured_failure :: "json_body \<Rightarrow> bool" where
  "structured_failure (JsonDict r) =
     (r_success r = Some False \<and> r_error r \<noteq> None \<and> r_logs r \<noteq> None
      \<and> r_execution_time_ms r \<noteq> None \<and> r_memory_used_mb r = Some 0)"
| "structured_failure (JsonOther v) = False"

text \<open>
  The failure modes of a request that was sent: a timeout, a connection failure, any
  other exception, a status from 400 to 599, a content type that is not JSON, a blank
  body, a body that does not parse.
\<close>

fun failure_mode :: "post_outcome \<Rightarrow> bool" where
  "failure_mode (PostResponse resp) =
     ((400 \<le> status_code resp \<and> status_code resp < 600)
      \<or> \<not> contains ''application/json'' (case content_type resp of None \<Rightarrow> [] | Some c \<Rightarrow> c)
      \<or> blank (body_text resp)
      \<or> isl (parsed resp))"
| "failure_mode outcome = True"

fun execution_time_ms :: "json_body \<Rightarrow> int option" where
  "execution_time_ms (JsonDict r) = r_execution_time_ms r"
| "execution_time_ms (JsonOther v) = None"

text \<open>Two concrete situations of the gateway.\<close>

definition tunnel_down :: gateway_env where
  "tunnel_down = \<lparr> in_cluster = False, tunnel = TunnelExited, post = PostTimeout \<rparr>"

definition empty_dict :: agent_result where
  "empty_dict = \<lparr> r_success = None, r_result = None, r_error = None, r_logs = None,
                  r_execution_time_ms = None, r_memory_used_mb = None \<rparr>"

definition answers :: "nat \<Rightarrow> string \<Rightarrow> gateway_env" where
  "answers st rs =
     \<lparr> in_cluster = True, tunnel = TunnelUp,
       post = PostResponse \<lparr> status_code = st, reason = rs,
                url = ''http://func-1a2b3c4d-svc.fnbox-functions.svc.cluster.local:8080/invoke'',
                content_type = Some ''application/json'', body_text = ''{}'',
                parsed = Inr (JsonDict empty_dict) \<rparr> \<rparr>"

section \<open>Invoke and test jobs (tasks.py)\<close>

text \<open>\<open>str(e)\<close> of an exception.\<close>

fun exn_text :: "py_exn \<Rightarrow> string" where
  "exn_text (ValueError m) = m"
| "exn_text (PlainException m) = m"
| "exn_text (ApiException s) = ''('' @ str_nat s @ '')''"
| "exn_text (OtherError m) = m"

text \<open>
  What an invoke or test job reads from outside the database: the clock at each
  \<open>timezone.now()\<close>, the request id \<open>uuid4\<close> yields, the elapsed milliseconds, and the
  gateway, whose constructor \<open>KubernetesManager()\<close> can raise.
\<close>

record job_inputs =
  now_check :: int
  now_created :: int
  now_completed :: int
  now_invoked :: int
  generated_request_id :: string
  elapsed_ms :: int
  manager :: "py_exn + gateway_env"

definition next_inv_id :: "db \<Rightarrow> nat" where
  "next_inv_id d = Suc (fold max (map inv_id (invocations d)) 0)"

text \<open>
  \<open>FunctionInvocation.objects.create\<close>: \<open>request_id\<close> is unique, so a request id
  that is already in the table raises and no row is added.
\<close>

definition create_invocation ::
  "db \<Rightarrow> string \<Rightarrow> string \<Rightarrow> string \<Rightarrow> int \<Rightarrow> py_exn + (invocation_row \<times> db)" where
  "create_invocation d fid rid event now =
     (if rid \<in> set (map request_id (invocations d)) then
        Inl (OtherError ''UNIQUE constraint failed: functions_functioninvocation.request_id'')
      else
        (let row = \<lparr> inv_id = next_inv_id d, inv_function = fid, request_id = rid,
                      inv_status = IPending, input_data = event, output_data = None,
                      error_message = [], duration_ms = None, memory_used_mb = None, logs = [],
                      created_at = now, started_at = Some now, completed_at = None \<rparr>
         in Inr (row, d\<lparr>invocations := invocations d @ [row]\<rparr>)))"

definition save_invocation :: "db \<Rightarrow> invocation_row \<Rightarrow> db" where
  "save_invocation d row =
     d\<lparr>invocations := map (\<lambda>r. if inv_id r = inv_id row then row else r) (invocations d)\<rparr>"

text \<open>
  The body shared by \<open>test_function_task\<close> and \<open>invoke_function_task\<close>, which differ in
  the message for a function that is not deployed and in the request id. The guards
  come in the order of the source: existence, deployment, circuit breaker, concurrency
  cap. The secrets read before the call only change the request and are left out.
\<close>

definition invocation_job ::
  "string \<Rightarrow> db \<Rightarrow> job_inputs \<Rightarrow> string \<Rightarrow> string \<Rightarrow> string option \<Rightarrow> db \<times> task_result celery" where
  "invocation_job not_deployed d inp function_uuid event_data rid_opt =
     (case function_table d function_uuid of
        None \<Rightarrow> (d, Returns (rejected ''Function not found''))
      | Some func \<Rightarrow>
          if status func \<noteq> FActive \<or> \<not> truthy (service_name func) then
            (d, Returns (rejected not_deployed))
          else if circuit_open d function_uuid (now_check inp) then
            (d, Returns (rejected high_failure_rate_msg))
          else if running_invocations d function_uuid \<ge> 5 then
            (d, Returns (rejected (too_many_msg (running_invocations d function_uuid))))
          else
            (let rid = (if truthy rid_opt then (case rid_opt of Some r \<Rightarrow> r | None \<Rightarrow> [])
                        else generated_request_id inp)
             in case create_invocation d function_uuid rid event_data (now_created inp) of
                  Inl e \<Rightarrow> (d, Returns (rejected (exn_text e)))
                | Inr (row, d1) \<Rightarrow>
                    (let running = row\<lparr>inv_status := IRunning\<rparr>;
                         d2 = save_invocation d1 running;
                         answer =
                           (case manager inp of
                              Inl e \<Rightarrow> Inl (exn_text e)
                            | Inr genv \<Rightarrow>
                                (case invoke_function genv
                                        (case service_name func of Some s \<Rightarrow> s | None \<Rightarrow> [])
                                        (timeout_seconds func) of
                                   Inl e \<Rightarrow> Inl (exn_text e)
                                 | Inr (JsonOther v) \<Rightarrow> Inl ''object has no attribute get''
                                 | Inr (JsonDict r) \<Rightarrow> Inr r))
                     in case answer of
                          Inr r \<Rightarrow>
                            (let finished = running
                                   \<lparr> inv_status :=
                                       (if (case r_success r of None \<Rightarrow> True | Some b \<Rightarrow> b)
                                        then ISuccess else IError),
                                     output_data := r_result r,
                                     error_message := (case r_error r of None \<Rightarrow> [] | Some m \<Rightarrow> m),
                                     logs := (case r_logs r of None \<Rightarrow> [] | Some l \<Rightarrow> l),
                                     duration_ms :=
                                       Some (case r_execution_time_ms r of
                                               None \<Rightarrow> elapsed_ms inp | Some t \<Rightarrow> t),
                                     memory_used_mb := r_memory_used_mb r,
                                     completed_at := Some (now_completed inp) \<rparr>;
                                 d3 = save_invocation d2 finished;
                                 d4 = d3\<lparr>function_table := (function_table d3)(function_uuid \<mapsto>
                                        func\<lparr> invocation_count := invocation_count func + 1,
                                              last_invoked_at := Some (now_invoked inp) \<rparr>)\<rparr>
                             in (d4, Returns \<lparr> res_success = True, res_error = None,
                                              res_invocation_id = Some (inv_id row) \<rparr>))
                        | Inl msg \<Rightarrow>
                            (let failed = running
                                   \<lparr> inv_status := IError,
                                     error_message := msg,
                                     duration_ms := Some (elapsed_ms inp),
                                     completed_at := Some (now_completed inp) \<rparr>
                             in (save_invocation d2 failed,
                                 Returns \<lparr> res_success = False, res_error = Some msg,
                                           res_invocation_id = Some (inv_id row) \<rparr>)))))"

definition test_function_task ::
  "db \<Rightarrow> job_inputs \<Rightarrow> string \<Rightarrow> string \<Rightarrow> db \<times> task_result celery" where
  "test_function_task d inp function_uuid event_data =
     invocation_job ''Function must be deployed before testing'' d inp function_uuid event_data None"

definition invoke_function_task ::
  "db \<Rightarrow> job_inputs \<Rightarrow> string \<Rightarrow> string \<Rightarrow> string option \<Rightarrow> db \<times> task_result celery" where
  "invoke_function_task d inp function_uuid event_data request_id_arg =
     invocation_job ''Function is not deployed'' d inp function_uuid event_data request_id_arg"

text \<open>Sample rows for concrete runs of the jobs.\<close>

definition sample_function :: function_row where
  "sample_function =
     \<lparr> code = ''def handler(event, context): return 1'', handler = ''handler'',
       runtime = ''python3.11'', memory_mb = 128, cpu_millicores = 1000, timeout_seconds = 30,
       depsets = [], status = FActive,
       deployment_name = Some ''func-0f8fad5b'', service_name = Some ''func-0f8fad5b-svc'',
       k8s_namespace = Some ''fnbox-functions'', last_deployed_at = Some 0,
       invocation_count = 0, last_invoked_at = None \<rparr>"

definition sample_invocation :: "nat \<Rightarrow> invocation_status \<Rightarrow> int \<Rightarrow> invocation_row" where
  "sample_invocation i st t =
     \<lparr> inv_id = i, inv_function = ''0f8fad5b'', request_id = ''req-'' @ str_nat i,
       inv_status = st, input_data = ''{}'', output_data = None, error_message = [],
       duration_ms = None, memory_used_mb = None, logs = [],
       created_at = t, started_at = Some t, completed_at = None \<rparr>"

definition sample_db :: "invocation_status list \<Rightarrow> db" where
  "sample_db sts =
     \<lparr> function_table = [''0f8fad5b'' \<mapsto> sample_function],
       invocations = map (\<lambda>(i, st). sample_invocation i st (int i)) (enumerate 1 sts) \<rparr>"

definition sample_inputs :: job_inputs where
  "sample_inputs =
     \<lparr> now_check = 60000000, now_created = 60000001, now_completed = 60000500,
       now_invoked = 60000501, generated_request_id = ''req-3f2a9c0d1b7e'', elapsed_ms = 499,
       manager = Inr (answers 200 ''OK'') \<rparr>"

section \<open>Deploy and undeploy jobs (tasks.py)\<close>

text \<open>\<open>s.strip()\<close> and \<open>s.startswith(prefixes)\<close> for a tuple of prefixes.\<close>

definition strip :: "string \<Rightarrow> string" where
  "strip s = rev (dropWhile py_isspace (rev (dropWhile py_isspace s)))"

definition startswith_any :: "string \<Rightarrow> string list \<Rightarrow> bool" where
  "startswith_any s ps = list_ex (\<lambda>p. prefix p s) ps"

text \<open>The requirement string the deploy job builds for one package of a dependency set.\<close>

definition format_package :: "string \<Rightarrow> string \<times> string \<Rightarrow> string" where
  "format_package rtype pkg =
     (case pkg of (package_name, version_spec) \<Rightarrow>
        if version_spec \<noteq> [] then
          (let version = strip version_spec in
           if startswith_any version [''=='', ''>='', ''<='', ''>'', ''<'', ''~'', ''^'', ''@'']
           then package_name @ version
           else if rtype = ''python'' then package_name @ ''=='' @ version
           else if rtype = ''nodejs'' then package_name @ ''@'' @ version
           else if rtype = ''ruby'' then package_name @ '' -v '' @ version
           else package_name @ ''=='' @ version)
        else package_name)"

definition depset_packages :: "function_row \<Rightarrow> string list" where
  "depset_packages func =
     concat (map (\<lambda>ds. map (format_package (runtime_type ds)) (packages ds)) (depsets func))"

text \<open>The dictionary the deploy and undeploy jobs return.\<close>

record lifecycle_result =
  lr_success :: bool
  lr_error :: "string option"
  lr_deployment :: "deployment_info option"
  lr_deployed_at :: "int option"

definition lifecycle_failure :: "string \<Rightarrow> lifecycle_result" where
  "lifecycle_failure msg =
     \<lparr> lr_success = False, lr_error = Some msg, lr_deployment = None, lr_deployed_at = None \<rparr>"

definition save_function :: "db \<Rightarrow> string \<Rightarrow> function_row \<Rightarrow> db" where
  "save_function d function_uuid func = d\<lparr>function_table := (function_table d)(function_uuid \<mapsto> func)\<rparr>"

text \<open>
  \<open>deploy_function_task\<close>, one run of it. It returns the rows it saved, in order, the
  database afterwards and what Celery sees. \<open>mgr\<close> is the cluster as
  \<open>KubernetesManager()\<close> finds it, or the exception its constructor raises;
  \<open>namespace_setting\<close> is \<open>settings.KUBERNETES_NAMESPACE\<close>, \<open>None\<close> when the setting
  is not defined (reading it raises then); \<open>retries\<close> is \<open>self.request.retries\<close> and
  \<open>max_retries\<close> is 3. The first save writes the status only, \<open>deploying\<close> whatever
  the status was. On any exception the row is read again, set to \<open>error\<close> and saved.
\<close>

definition deploy_function_task ::
  "db \<Rightarrow> py_exn + deploy_env \<Rightarrow> string option \<Rightarrow> int \<Rightarrow> nat \<Rightarrow> string
     \<Rightarrow> function_row list \<times> db \<times> lifecycle_result celery" where
  "deploy_function_task d mgr namespace_setting now retries function_uuid =
     (case function_table d function_uuid of
        None \<Rightarrow> ([], d, Returns (lifecycle_failure ''Function not found''))
      | Some func \<Rightarrow>
          (let f1 = func\<lparr>status := FDeploying\<rparr>;
               d1 = save_function d function_uuid f1;
               attempt =
                 (case mgr of
                    Inl e \<Rightarrow> Inl e
                  | Inr env \<Rightarrow>
                      (case snd (deploy_function env function_uuid (runtime func) (code func)
                                   (depset_packages func) (memory_mb func) (timeout_seconds func)
                                   (cpu_millicores func)) of
                         Inl e \<Rightarrow> Inl e
                       | Inr deployment \<Rightarrow>
                           (case namespace_setting of
                              None \<Rightarrow> Inl (OtherError ''Settings object has no attribute KUBERNETES_NAMESPACE'')
                            | Some ns \<Rightarrow> Inr (deployment, ns))))
           in case attempt of
                Inr (deployment, ns) \<Rightarrow>
                  (let f2 = f1\<lparr> deployment_name := Some (info_deployment_name deployment),
                                 service_name := Some (info_service_name deployment),
                                 k8s_namespace := Some ns,
                                 status := FActive,
                                 last_deployed_at := Some now \<rparr>
                   in ([f1, f2], save_function d1 function_uuid f2,
                       Returns \<lparr> lr_success = True, lr_error = None,
                                 lr_deployment = Some deployment, lr_deployed_at = Some now \<rparr>))
              | Inl e \<Rightarrow>
                  (let f2 = f1\<lparr>status := FError\<rparr>
                   in ([f1, f2], save_function d1 function_uuid f2,
                       if retries < 3 then RetryAfter 60
                       else Returns (lifecycle_failure (exn_text e))))))"

text \<open>
  \<open>undeploy_function_task\<close>, one run of it. The first save writes the status only; the
  binding fields are cleared in the last save, after the teardown, which needs
  \<open>deployment_name\<close>. On any exception the row is read again, set to \<open>error\<close> and saved.
\<close>

definition undeploy_function_task ::
  "db \<Rightarrow> py_exn + delete_env \<Rightarrow> nat \<Rightarrow> string
     \<Rightarrow> function_row list \<times> db \<times> lifecycle_result celery" where
  "undeploy_function_task d mgr retries function_uuid =
     (case function_table d function_uuid of
        None \<Rightarrow> ([], d, Returns (lifecycle_failure ''Function not found''))
      | Some func \<Rightarrow>
          (let f1 = func\<lparr>status := FUndeploying\<rparr>;
               d1 = save_function d function_uuid f1;
               teardown =
                 (if truthy (deployment_name func) then
                    (case mgr of
                       Inl e \<Rightarrow> Some e
                     | Inr env \<Rightarrow>
                         snd (delete_function env
                                (case deployment_name func of Some n \<Rightarrow> n | None \<Rightarrow> [])))
                  else None)
           in case teardown of
                None \<Rightarrow>
                  (let f2 = f1\<lparr> deployment_name := None, service_name := None,
                                 k8s_namespace := None, status := FDraft \<rparr>
                   in ([f1, f2], save_function d1 function_uuid f2,
                       Returns \<lparr> lr_success = True, lr_error = None,
                                 lr_deployment = None, lr_deployed_at = None \<rparr>))
              | Some e \<Rightarrow>
                  (let f2 = f1\<lparr>status := FError\<rparr>
                   in ([f1, f2], save_function d1 function_uuid f2,
                       if retries < 3 then RetryAfter 30
                       else Returns (lifecycle_failure (exn_text e))))))"

text \<open>The binding fields of a row, and the steps the two jobs take from one saved row to the next.\<close>

definition binding :: "function_row \<Rightarrow> string option \<times> string option \<times> string option" where
  "binding f = (deployment_name f, service_name f, k8s_namespace f)"

definition bound :: "function_row \<Rightarrow> bool" where
  "bound f \<longleftrightarrow> deployment_name f \<noteq> None \<and> service_name f \<noteq> None \<and> k8s_namespace f \<noteq> None"

definition lifecycle_step :: "function_row \<Rightarrow> function_row \<Rightarrow> bool" where
  "lifecycle_step a b \<longleftrightarrow>
     (status b = FDeploying \<and> binding b = binding a)
     \<or> (status b = FUndeploying \<and> binding b = binding a)
     \<or> (status a = FDeploying \<and> status b = FActive \<and> bound b)
     \<or> (status a = FDeploying \<and> status b = FError \<and> binding b = binding a)
     \<or> (status a = FUndeploying \<and> status b = FDraft \<and> binding b = (None, None, None))
     \<or> (status a = FUndeploying \<and> status b = FError \<and> binding b = binding a)"

fun steps_ok :: "function_row \<Rightarrow> function_row list \<Rightarrow> bool" where
  "steps_ok a [] = True"
| "steps_ok a (b # bs) = (lifecycle_step a b \<and> steps_ok b bs)"

text \<open>A cluster on which a deployment succeeds at once, and one that refuses the deployment.\<close>

definition ready_cluster :: deploy_env where
  "ready_cluster =
     \<lparr> cm_create = Succeeds, cm_patch = Succeeds, dep_create = Succeeds, svc_create = Succeeds,
       svc_cluster_ip = ''10.96.0.17'', hpa_create = Succeeds,
       ready_polls = (\<lambda>i. ReadyReplicas 1), pods_list = Inr [''func-0f8fad5b-7c9d8'' ] \<rparr>"

definition refusing_cluster :: deploy_env where
  "refusing_cluster = ready_cluster\<lparr>dep_create := RaisesApi 403\<rparr>"

definition draft_function :: function_row where
  "draft_function =
     sample_function\<lparr> status := FDraft, deployment_name := None, service_name := None,
                      k8s_namespace := None, last_deployed_at := None \<rparr>"

definition draft_db :: db where
  "draft_db = \<lparr> function_table = [''0f8fad5b'' \<mapsto> draft_function], invocations = [] \<rparr>"

section \<open>Trigger Scheduler Sync (signals.py)\<close>

text \<open>
  A row of \<open>FunctionTrigger\<close> (\<open>trigger_function\<close> is the uuid of the owning function)
  and a row of the periodic job registry, \<open>PeriodicTask\<close> of django-celery-beat, with
  the fields the signal handlers set. The registry is keyed by the job's name.
\<close>

record trigger_row =
  trigger_uuid :: string
  trigger_function :: string
  trigger_name :: string
  trigger_type :: string
  schedule :: "string option"
  enabled :: bool

record periodic_task =
  pt_name :: string
  pt_crontab :: "string list"
  pt_task :: string
  pt_function_uuid :: string
  pt_enabled :: bool

record scheduler =
  triggers :: "trigger_row list"
  periodic_tasks :: "periodic_task list"
  crontab_schedules :: "string list list"

text \<open>\<open>s.split()\<close>: the maximal runs of characters that are not whitespace.\<close>

fun words_acc :: "string \<Rightarrow> string \<Rightarrow> string list" where
  "words_acc w [] = (if w = [] then [] else [rev w])"
| "words_acc w (c # cs) =
     (if py_isspace c then (if w = [] then words_acc [] cs else rev w # words_acc [] cs)
      else words_acc (c # w) cs)"

definition split_ws :: "string \<Rightarrow> string list" where
  "split_ws s = words_acc [] s"

definition parse_cron_expression :: "string \<Rightarrow> py_exn + string list" where
  "parse_cron_expression cron_str =
     (let parts = split_ws cron_str in
      if length parts \<noteq> 5 then
        Inl (ValueError (''Invalid cron expression: '' @ cron_str @ ''. Must have 5 parts.''))
      else Inr parts)"

definition task_name :: "trigger_row \<Rightarrow> string" where
  "task_name t = ''trigger-'' @ trigger_uuid t"

definition delete_periodic_task :: "scheduler \<Rightarrow> string \<Rightarrow> scheduler" where
  "delete_periodic_task s n = s\<lparr>periodic_tasks := filter (\<lambda>p. pt_name p \<noteq> n) (periodic_tasks s)\<rparr>"

definition update_or_create :: "periodic_task list \<Rightarrow> periodic_task \<Rightarrow> periodic_task list" where
  "update_or_create ps p =
     (if list_ex (\<lambda>q. pt_name q = pt_name p) ps
      then map (\<lambda>q. if pt_name q = pt_name p then p else q) ps
      else ps @ [p])"

text \<open>
  \<open>manage_scheduled_trigger\<close>, the \<open>post_save\<close> handler of \<open>FunctionTrigger\<close>.
  \<open>fstatus\<close> is the status of the owning function. A schedule that does not parse is
  logged and nothing changes.
\<close>

definition manage_scheduled_trigger :: "scheduler \<Rightarrow> trigger_row \<Rightarrow> function_status \<Rightarrow> scheduler" where
  "manage_scheduled_trigger s inst fstatus =
     (if trigger_type inst = ''scheduled'' \<and> enabled inst \<and> truthy (schedule inst) then
        (case parse_cron_expression (case schedule inst of Some c \<Rightarrow> c | None \<Rightarrow> []) of
           Inl e \<Rightarrow> s
         | Inr cron \<Rightarrow>
             s\<lparr> crontab_schedules :=
                   (if cron \<in> set (crontab_schedules s) then crontab_schedules s
                    else crontab_schedules s @ [cron]),
                 periodic_tasks :=
                   update_or_create (periodic_tasks s)
                     \<lparr> pt_name = task_name inst, pt_crontab = cron,
                       pt_task = ''functions.tasks.invoke_function_task'',
                       pt_function_uuid = trigger_function inst,
                       pt_enabled = (fstatus = FActive) \<rparr> \<rparr>)
      else delete_periodic_task s (task_name inst))"

text \<open>\<open>delete_scheduled_trigger\<close>, the \<open>post_delete\<close> handler of \<open>FunctionTrigger\<close>.\<close>

definition delete_scheduled_trigger :: "scheduler \<Rightarrow> trigger_row \<Rightarrow> scheduler" where
  "delete_scheduled_trigger s inst = delete_periodic_task s (task_name inst)"

text \<open>
  \<open>trigger.save(update_fields=['enabled'])\<close>: the row with this uuid gets the new
  flag, and the save sends \<open>post_save\<close>, which runs \<open>manage_scheduled_trigger\<close>.
\<close>

definition save_trigger_enabled :: "scheduler \<Rightarrow> trigger_row \<Rightarrow> function_status \<Rightarrow> scheduler" where
  "save_trigger_enabled s t fstatus =
     manage_scheduled_trigger
       (s\<lparr>triggers := map (\<lambda>r. if trigger_uuid r = trigger_uuid t then r\<lparr>enabled := enabled t\<rparr> else r)
                          (triggers s)\<rparr>)
       t fstatus"

text \<open>The body of the loop of \<open>disable_triggers_on_undeploy\<close>, for one trigger.\<close>

definition disable_trigger :: "function_status \<Rightarrow> trigger_row \<Rightarrow> scheduler \<Rightarrow> scheduler" where
  "disable_trigger fstatus t s =
     (let s1 = (if enabled t then save_trigger_enabled s (t\<lparr>enabled := False\<rparr>) fstatus else s)
      in s1\<lparr>periodic_tasks :=
              map (\<lambda>p. if pt_name p = task_name t then p\<lparr>pt_enabled := False\<rparr> else p)
                (periodic_tasks s1)\<rparr>)"

text \<open>
  \<open>disable_triggers_on_undeploy\<close>, the \<open>post_save\<close> handler of \<open>Function\<close>; it runs at
  every save of a function, with the saved status. Database failures, which the handler
  logs, are not modelled.
\<close>

definition disable_triggers_on_undeploy ::
  "scheduler \<Rightarrow> string \<Rightarrow> function_status \<Rightarrow> bool \<Rightarrow> scheduler" where
  "disable_triggers_on_undeploy s instance_uuid instance_status created =
     (if created then s
      else if instance_status = FActive then s
      else
        (let owned = filter (\<lambda>t. trigger_function t = instance_uuid \<and> trigger_type t = ''scheduled'')
                       (triggers s)
         in fold (disable_trigger instance_status) owned s))"

text \<open>A registry with two scheduled triggers of one function, one of them enabled, and their jobs.\<close>

definition sample_scheduler :: scheduler where
  "sample_scheduler =
     \<lparr> triggers =
         [\<lparr> trigger_uuid = ''a1'', trigger_function = ''0f8fad5b'', trigger_name = ''hourly'',
             trigger_type = ''scheduled'', schedule = Some ''0 * * * *'', enabled = True \<rparr>,
          \<lparr> trigger_uuid = ''b2'', trigger_function = ''0f8fad5b'', trigger_name = ''nightly'',
             trigger_type = ''scheduled'', schedule = Some ''0 0 * * *'', enabled = False \<rparr>,
          \<lparr> trigger_uuid = ''c3'', trigger_function = ''7e57ab1e'', trigger_name = ''other'',
             trigger_type = ''scheduled'', schedule = Some ''*/5 * * * *'', enabled = True \<rparr>],
       periodic_tasks =
         [\<lparr> pt_name = ''trigger-a1'', pt_crontab = [''0'', ''*'', ''*'', ''*'', ''*''],
             pt_task = ''functions.tasks.invoke_function_task'', pt_function_uuid = ''0f8fad5b'',
             pt_enabled = True \<rparr>,
          \<lparr> pt_name = ''trigger-b2'', pt_crontab = [''0'', ''0'', ''*'', ''*'', ''*''],
             pt_task = ''functions.tasks.invoke_function_task'', pt_function_uuid = ''0f8fad5b'',
             pt_enabled = True \<rparr>,
          \<lparr> pt_name = ''trigger-c3'', pt_crontab = [''*/5'', ''*'', ''*'', ''*'', ''*''],
             pt_task = ''functions.tasks.invoke_function_task'', pt_function_uuid = ''7e57ab1e'',
             pt_enabled = True \<rparr>],
       crontab_schedules = [] \<rparr>"

section \<open>Execution Agent (docker/agent.py)\<close>

record executor =
  function_code :: "string option"
  handler_name :: string
  env_vars :: "(string \<times> string) list"

definition load_function :: "string \<Rightarrow> string \<Rightarrow> (string \<times> string) list \<Rightarrow> executor" where
  "load_function c h vars = \<lparr> function_code = Some c, handler_name = h, env_vars = vars \<rparr>"

text \<open>
  What running the user's code does, as the agent observes it. \<open>exec\<close> of the module
  runs on the caller's thread: it defines names and writes output, or raises, or never
  returns. The handler runs on a worker thread; \<open>handler_watch\<close> is the state of that
  thread when \<open>thread.join(timeout)\<close> comes back: it has returned a value, it has
  raised, or it is still alive, each with the output it has written so far.
\<close>

datatype module_exec =
    ModuleDefines "string list" string string
  | ModuleRaises string string string string
  | ModuleDiverges

datatype handler_watch =
    HandlerReturned string string string
  | HandlerRaised string string string string
  | StillAlive string string

record run_env =
  module_run :: module_exec
  worker :: handler_watch
  elapsed :: int
  memory_before :: int
  memory_after :: int
  traceback :: string

definition newline :: string where
  "newline = [CHR 0x0A]"

definition exception_result :: "run_env \<Rightarrow> string \<Rightarrow> string \<Rightarrow> string \<Rightarrow> string \<Rightarrow> agent_result" where
  "exception_result env kind msg out err =
     \<lparr> r_success = Some False, r_result = None, r_error = Some (kind @ '': '' @ msg),
       r_logs = Some (out @ newline @ (err @ newline @ traceback env)),
       r_execution_time_ms = Some (elapsed env), r_memory_used_mb = Some 0 \<rparr>"

text \<open>
  \<open>FunctionExecutor.execute(event, timeout_seconds)\<close>. The result is \<open>None\<close> when the
  call never returns, which only the module's own code can cause. The module and the
  handler write to the same two captures, so the handler's output follows the module's.
\<close>

definition execute :: "executor \<Rightarrow> run_env \<Rightarrow> int \<Rightarrow> agent_result option" where
  "execute ex env timeout =
     (if \<not> truthy (function_code ex) then
        Some \<lparr> r_success = Some False, r_result = None, r_error = Some ''No function code loaded'',
               r_logs = Some [], r_execution_time_ms = Some 0, r_memory_used_mb = Some 0 \<rparr>
      else
        (case module_run env of
           ModuleDiverges \<Rightarrow> None
         | ModuleRaises kind msg out err \<Rightarrow> Some (exception_result env kind msg out err)
         | ModuleDefines names mout merr \<Rightarrow>
             if handler_name ex \<notin> set names then
               Some (exception_result env ''ValueError''
                       (''Handler function '' @ [CHR 0x27] @ handler_name ex @ [CHR 0x27]
                          @ '' not found in code'') mout merr)
             else
               (case worker env of
                  StillAlive hout herr \<Rightarrow>
                    Some \<lparr> r_success = Some False, r_result = None,
                           r_error = Some (''Function execution exceeded '' @ str_int timeout @ '' seconds''),
                           r_logs = Some ((mout @ hout) @ newline @ (merr @ herr)),
                           r_execution_time_ms = Some (timeout * 1000),
                           r_memory_used_mb = Some 0 \<rparr>
                | HandlerRaised kind msg hout herr \<Rightarrow>
                    Some (exception_result env kind msg (mout @ hout) (merr @ herr))
                | HandlerReturned v hout herr \<Rightarrow>
                    (let stdout_logs = mout @ hout;
                         stderr_logs = merr @ herr;
                         combined_logs =
                           (if stdout_logs \<noteq> [] then ''[STDOUT]'' @ newline @ stdout_logs @ newline else [])
                           @ (if stderr_logs \<noteq> [] then ''[STDERR]'' @ newline @ stderr_logs @ newline else [])
                     in Some \<lparr> r_success = Some True, r_result = Some v, r_error = None,
                               r_logs = Some combined_logs,
                               r_execution_time_ms = Some (elapsed env),
                               r_memory_used_mb = Some (max 0 (memory_after env - memory_before env)) \<rparr>))))"

text \<open>
  The body of \<open>POST /invoke\<close>: an absent \<open>timeout_seconds\<close> is 30, a \<open>code\<close> key loads
  the code first, and the result is sent with status 200.
\<close>

record invoke_request =
  req_timeout_seconds :: "int option"
  req_code :: "string option"
  req_handler :: "string option"
  req_env_vars :: "(string \<times> string) list"

definition handle_invoke :: "executor \<Rightarrow> run_env \<Rightarrow> invoke_request \<Rightarrow> (nat \<times> agent_result) option" where
  "handle_invoke ex env req =
     (let timeout = (case req_timeout_seconds req of None \<Rightarrow> 30 | Some t \<Rightarrow> t);
          ex1 = (case req_code req of
                   None \<Rightarrow> ex
                 | Some c \<Rightarrow>
                     load_function c (case req_handler req of None \<Rightarrow> ''handler'' | Some h \<Rightarrow> h)
                       (req_env_vars req))
      in map_option (\<lambda>r. (200, r)) (execute ex1 env timeout))"

text \<open>A handler that sleeps past its two-second timeout after printing one line.\<close>

definition sleeper :: invoke_request where
  "sleeper =
     \<lparr> req_timeout_seconds = Some 2,
       req_code = Some ''import time; def handler(event, context): print(1); time.sleep(60)'',
       req_handler = None, req_env_vars = [] \<rparr>"

definition sleeper_run :: run_env where
  "sleeper_run =
     \<lparr> module_run = ModuleDefines [''__name__'', ''__builtins__'', ''time'', ''handler''] [] [],
       worker = StillAlive (''1'' @ newline) [], elapsed = 2001, memory_before = 20,
       memory_after = 20, traceback = [] \<rparr>"

section \<open>Properties of the Deployment Orchestrator\<close>

lemma int_times_1_5_nonneg: "0 \<le> x \<Longrightarrow> int_times_1_5 x = (3 * x) div 2"
  by (simp add: int_times_1_5_def)

lemma half_exact_iff: "2 * ((3 * x) div 2) = 3 * x \<longleftrightarrow> even (x::int)"
  by presburger

lemma wait_trace_calls:
  "c \<in> set (fst (wait_for_deployment polls name timeout i)) \<Longrightarrow> c = ReadDeployment name \<or> c = Sleep 2"
proof (induction polls name timeout i rule: wait_for_deployment.induct)
  case (1 polls name timeout i)
  show ?case
    using "1.prems" "1.IH"
    by (subst (asm) wait_for_deployment.simps)
       (auto split: if_splits poll_outcome.splits prod.splits)
qed

text \<open>
  The only deployment \<open>deploy_function\<close> creates carries the resources that
  \<open>_create_deployment\<close> computes from the function's memory and CPU, with one replica.
\<close>

lemma wait_trace_no_create:
  "CreateDeployment nm im res k ds \<notin> set (fst (wait_for_deployment polls name timeout i))"
  using wait_trace_calls [of "CreateDeployment nm im res k ds" polls name timeout i] by auto

lemma deploy_function_resources:
  assumes "CreateDeployment nm im res k ds \<in> set (fst (deploy_function env fid rt c deps m t cpu))"
  shows "res = container_resources m cpu \<and> k = 1 \<and> ds = deps \<and> nm = ''func-'' @ take 8 fid"
proof -
  obtain tr r where w: "wait_for_deployment (ready_polls env) (''func-'' @ take 8 fid)
                          (deployment_timeout deps) 0 = (tr, r)"
    by (cases "wait_for_deployment (ready_polls env) (''func-'' @ take 8 fid) (deployment_timeout deps) 0")
  have n: "CreateDeployment nm im res k ds \<notin> set tr"
    using wait_trace_no_create [of nm im res k ds "ready_polls env" "''func-'' @ take 8 fid"
            "deployment_timeout deps" 0] w by simp
  show ?thesis
    using assms w n
    by (auto simp: deploy_function_def Let_def create_function_configmap_def create_deployment_def
          create_service_def create_hpa_def
          split: option.splits prod.splits sum.splits api_outcome.splits if_splits)
qed

lemma never_ready:
  "snd (wait_for_deployment (\<lambda>i. ReadyReplicas 0) n t i) = Inr False
   \<and> sleep_seconds (fst (wait_for_deployment (\<lambda>i. ReadyReplicas 0) n t i))
       = 2 * (nat ((t + 1) div 2) - i)"
proof (induction "\<lambda>i::nat. ReadyReplicas 0" n t i rule: wait_for_deployment.induct)
  case (1 name timeout i)
  show ?case
  proof (cases "int (2 * i) < timeout")
    case True
    from "1.hyps"(1) [OF True] True show ?thesis
      by (subst (1 2) wait_for_deployment.simps) (auto split: prod.splits)
  next
    case False
    then show ?thesis
      by (subst (1 2) wait_for_deployment.simps) auto
  qed
qed

lemma budget_used:
  "sleep_seconds (fst (wait_for_deployment (\<lambda>i. ReadyReplicas 0) n (deployment_timeout deps) 0))
     = nat (deployment_timeout deps)"
proof -
  have "even (deployment_timeout deps)" "0 \<le> deployment_timeout deps"
    by (simp_all add: deployment_timeout_def min_def)
  then obtain k where k: "deployment_timeout deps = 2 * k" "0 \<le> k"
    by (auto elim: evenE)
  have "(2 * k + 1) div 2 = k" by simp
  with k have "2 * nat ((deployment_timeout deps + 1) div 2) = nat (deployment_timeout deps)"
    by (simp add: nat_mult_distrib)
  with never_ready [of n "deployment_timeout deps" 0] show ?thesis by simp
qed

text \<open>
  Claim C4. For a dependency list of length \<open>N\<close>, the readiness budget that
  \<open>deploy_function\<close> computes and hands to \<open>_wait_for_deployment\<close> is
  \<open>min (60 + 10 * N) 300\<close> seconds: 60 for no dependency, 300 (not 360) for thirty.
  A deployment that never becomes ready is waited for that many seconds of sleep.
\<close>

theorem readiness_timeout_formula:
  "deployment_timeout deps = min (60 + 10 * int (length deps)) 300
   \<and> deployment_timeout ([] :: string list) = 60
   \<and> deployment_timeout (replicate 30 d) = 300
   \<and> sleep_seconds (fst (wait_for_deployment (\<lambda>i. ReadyReplicas 0) n (deployment_timeout deps) 0))
       = nat (min (60 + 10 * int (length deps)) 300)"
proof -
  have f: "deployment_timeout deps = min (60 + 10 * int (length deps)) 300"
    by (simp add: deployment_timeout_def)
  have "deployment_timeout ([] :: string list) = 60" "deployment_timeout (replicate 30 d) = 300"
    by (simp_all add: deployment_timeout_def)
  with f budget_used [of n deps] show ?thesis by simp
qed

text \<open>
  Claim C5, as stated, fails: the limit is \<open>int(request * 1.5)\<close>, truncated to an integer,
  so for an odd request it is half a unit below 1.5 times the request. With
  \<open>memory_mb = 129\<close> the container requests \<open>129Mi\<close> and is limited to \<open>193Mi\<close>,
  and \<open>2 * 193 \<noteq> 3 * 129\<close>.
\<close>

theorem limits_exact_counterexample:
  "map_of (requests (container_resources 129 250)) ''memory'' = Some ''129Mi''
   \<and> map_of (limits (container_resources 129 250)) ''memory'' = Some ''193Mi''
   \<and> 2 * (193::int) \<noteq> 3 * 129"
  by code_simp

text \<open>
  Claim C5, amended. For positive memory and CPU requests the container's limits are the
  requests times 1.5 rounded down to an integer, for memory and for CPU; the limit is
  exactly 1.5 times the request if and only if the request is even.
\<close>

theorem limits_floor:
  assumes "0 < m" and "0 < c"
  shows "requests (container_resources m c) =
           [(''memory'', str_int m @ ''Mi''),
            (''cpu'', str_int c @ ''m''),
            (''ephemeral-storage'', ''1Gi'')]
       \<and> limits (container_resources m c) =
           [(''memory'', str_int ((3 * m) div 2) @ ''Mi''),
            (''cpu'', str_int ((3 * c) div 2) @ ''m''),
            (''ephemeral-storage'', ''2Gi'')]
       \<and> (2 * ((3 * m) div 2) = 3 * m \<longleftrightarrow> even m)
       \<and> (2 * ((3 * c) div 2) = 3 * c \<longleftrightarrow> even c)"
  using assms by (simp add: container_resources_def int_times_1_5_nonneg half_exact_iff)

theorem limits_floor_witness:
  "(0::int) < 128 \<and> (0::int) < 250
   \<and> limits (container_resources 128 250) =
       [(''memory'', ''192Mi''), (''cpu'', ''375m''), (''ephemeral-storage'', ''2Gi'')]
   \<and> 2 * (192::int) = 3 * 128"
proof -
  have s1: "str_int 192 = ''192''" by code_simp
  have s2: "str_int 375 = ''375''" by code_simp
  show ?thesis using limits_floor [of 128 250] s1 s2 by simp
qed

section \<open>Properties of the teardown\<close>

lemma wait_deleted_trace:
  "wait_deleted reads d i k = (w, r) \<Longrightarrow>
     set w \<subseteq> {ReadDeployment d, Sleep 1} \<and> sleep_seconds w \<le> k
     \<and> length (filter (\<lambda>c. c = ReadDeployment d) w) \<le> k"
proof (induction k arbitrary: i w r)
  case 0
  then show ?case by simp
next
  case (Suc k)
  show ?case
  proof (cases "reads i")
    case Succeeds
    obtain t r' where rec: "wait_deleted reads d (Suc i) k = (t, r')"
      by (cases "wait_deleted reads d (Suc i) k")
    from Suc.prems Succeeds rec have w: "w = ReadDeployment d # Sleep 1 # t" by simp
    from Suc.IH [OF rec] w show ?thesis by auto
  next
    case (RaisesApi s)
    show ?thesis
    proof (cases "s = 404")
      case True
      with Suc.prems RaisesApi show ?thesis by auto
    next
      case False
      obtain t r' where rec: "wait_deleted reads d (Suc i) k = (t, r')"
        by (cases "wait_deleted reads d (Suc i) k")
      from Suc.prems RaisesApi False rec have w: "w = ReadDeployment d # t" by simp
      from Suc.IH [OF rec] w show ?thesis by auto
    qed
  next
    case (RaisesOther m)
    with Suc.prems show ?thesis by auto
  qed
qed

lemma wait_deleted_raises:
  "wait_deleted reads d i k = (w, Some e) \<Longrightarrow>
     \<exists>j m. i \<le> j \<and> j < i + k \<and> reads j = RaisesOther m \<and> e = OtherError m"
proof (induction k arbitrary: i w)
  case 0
  then show ?case by simp
next
  case (Suc k)
  show ?case
  proof (cases "reads i")
    case Succeeds
    obtain t r' where rec: "wait_deleted reads d (Suc i) k = (t, r')"
      by (cases "wait_deleted reads d (Suc i) k")
    from Suc.prems Succeeds rec have "r' = Some e" by simp
    with rec Suc.IH [of "Suc i" t] obtain j m where
      "Suc i \<le> j" "j < Suc i + k" "reads j = RaisesOther m" "e = OtherError m" by blast
    then show ?thesis by (intro exI [of _ j] exI [of _ m]) simp
  next
    case (RaisesApi s)
    show ?thesis
    proof (cases "s = 404")
      case True
      with Suc.prems RaisesApi show ?thesis by simp
    next
      case False
      obtain t r' where rec: "wait_deleted reads d (Suc i) k = (t, r')"
        by (cases "wait_deleted reads d (Suc i) k")
      from Suc.prems RaisesApi False rec have "r' = Some e" by simp
      with rec Suc.IH [of "Suc i" t] obtain j m where
        "Suc i \<le> j" "j < Suc i + k" "reads j = RaisesOther m" "e = OtherError m" by blast
      then show ?thesis by (intro exI [of _ j] exI [of _ m]) simp
    qed
  next
    case (RaisesOther m)
    with Suc.prems show ?thesis by (intro exI [of _ i] exI [of _ m]) simp
  qed
qed

lemma tolerated_Some: "tolerated a = Some e \<Longrightarrow> \<exists>m. a = RaisesOther m \<and> e = OtherError m"
  by (cases a) auto

lemma tolerated_None: "\<not> is_other a \<Longrightarrow> tolerated a = None"
  by (cases a) auto

lemma is_other_iff: "is_other a \<longleftrightarrow> (\<exists>m. a = RaisesOther m)"
  by (cases a) auto

lemma delete_function_raises:
  assumes "delete_function env d = (tr, Some e)"
  shows "\<not> api_errors_only env"
proof -
  let ?w = "wait_deleted (dep_reads env) d 0 30"
  obtain t r where w: "?w = (t, r)" by (cases ?w)
  consider (hpa) "tolerated (hpa_delete env) \<noteq> None"
    | (svc) "tolerated (svc_delete env) \<noteq> None"
    | (dep) "tolerated (dep_delete env) \<noteq> None"
    | (wait) "r \<noteq> None"
    | (cm) "tolerated (cm_delete env) \<noteq> None"
    using assms w by (auto simp: delete_function_def Let_def split: option.splits)
  then show ?thesis
  proof cases
    case wait
    then obtain e' where "r = Some e'" by auto
    with w wait_deleted_raises [of "dep_reads env" d 0 30 t e']
    obtain j m where "j < 30" "dep_reads env j = RaisesOther m" by auto
    then show ?thesis by (auto simp: api_errors_only_def)
  qed (auto simp: api_errors_only_def dest!: tolerated_Some)
qed


lemma wait_deleted_absent:
  "0 < k \<Longrightarrow> reads i = RaisesApi 404 \<Longrightarrow> wait_deleted reads d i k = ([ReadDeployment d], None)"
  by (cases k) auto

lemma delete_function_shape:
  assumes "delete_function env d = (tr, r)"
  shows "\<exists>w. set w \<subseteq> {ReadDeployment d, Sleep 1} \<and> sleep_seconds w \<le> 30
           \<and> length (filter (\<lambda>c. c = ReadDeployment d) w) \<le> 30
           \<and> prefix tr ([DeleteHPA (d @ ''-hpa''), DeleteService (d @ ''-svc''), DeleteDeployment d]
                          @ w @ [DeleteConfigMap d])
           \<and> (r = None \<longrightarrow>
                tr = [DeleteHPA (d @ ''-hpa''), DeleteService (d @ ''-svc''), DeleteDeployment d]
                       @ w @ [DeleteConfigMap d])"
proof -
  let ?w = "wait_deleted (dep_reads env) d 0 30"
  obtain t r' where w: "?w = (t, r')" by (cases ?w)
  note tw = wait_deleted_trace [OF w]
  have "prefix tr ([DeleteHPA (d @ ''-hpa''), DeleteService (d @ ''-svc''), DeleteDeployment d]
                          @ t @ [DeleteConfigMap d])
        \<and> (r = None \<longrightarrow>
                tr = [DeleteHPA (d @ ''-hpa''), DeleteService (d @ ''-svc''), DeleteDeployment d]
                       @ t @ [DeleteConfigMap d])"
    using assms w
    by (auto simp: delete_function_def Let_def split: option.splits)
  with tw show ?thesis by blast
qed

text \<open>
  Claim C8. \<open>delete_function\<close> deletes the autoscaler, then the service, then the
  deployment, then reads the deployment at most 30 times, sleeping at most 30 seconds in
  all, and only then deletes the config map. It returns normally whenever every failing
  cluster call fails with an \<open>ApiException\<close> (status 404 included), so an exception that
  escapes is never a "not found" answer: it is an error that is not an \<open>ApiException\<close>.
  On a cluster where every sub-resource is already absent, as after a first teardown, it
  makes the same deletions, one read, and returns normally.
\<close>

theorem delete_function_teardown:
  assumes "delete_function env d = (tr, r)"
  shows "(\<exists>w. set w \<subseteq> {ReadDeployment d, Sleep 1} \<and> sleep_seconds w \<le> 30
           \<and> length (filter (\<lambda>c. c = ReadDeployment d) w) \<le> 30
           \<and> prefix tr ([DeleteHPA (d @ ''-hpa''), DeleteService (d @ ''-svc''), DeleteDeployment d]
                          @ w @ [DeleteConfigMap d])
           \<and> (r = None \<longrightarrow>
                tr = [DeleteHPA (d @ ''-hpa''), DeleteService (d @ ''-svc''), DeleteDeployment d]
                       @ w @ [DeleteConfigMap d]))
       \<and> (api_errors_only env \<longrightarrow> r = None)
       \<and> (\<forall>e. r = Some e \<longrightarrow> (\<exists>m. e = OtherError m))
       \<and> api_errors_only all_absent
       \<and> delete_function all_absent d =
           ([DeleteHPA (d @ ''-hpa''), DeleteService (d @ ''-svc''), DeleteDeployment d,
             ReadDeployment d, DeleteConfigMap d], None)"
proof -
  have a: "api_errors_only env \<longrightarrow> r = None"
    using delete_function_raises [of env d tr] assms by (cases r) auto
  let ?w = "wait_deleted (dep_reads env) d 0 30"
  obtain t r' where w: "?w = (t, r')" by (cases ?w)
  have b: "\<forall>e. r = Some e \<longrightarrow> (\<exists>m. e = OtherError m)"
    using assms w wait_deleted_raises [of "dep_reads env" d 0 30 t]
    by (auto simp: delete_function_def Let_def split: option.splits dest!: tolerated_Some)
  have c: "api_errors_only all_absent"
    by (simp add: api_errors_only_def all_absent_def)
  have "wait_deleted (\<lambda>i. RaisesApi 404) d 0 30 = ([ReadDeployment d], None)"
    by (rule wait_deleted_absent) simp_all
  then have d: "delete_function all_absent d =
           ([DeleteHPA (d @ ''-hpa''), DeleteService (d @ ''-svc''), DeleteDeployment d,
             ReadDeployment d, DeleteConfigMap d], None)"
    by (simp add: delete_function_def all_absent_def)
  from delete_function_shape [OF assms] a b c d show ?thesis by blast
qed

theorem delete_function_teardown_witness:
  "delete_function all_absent ''func-1a2b3c4d'' =
     ([DeleteHPA ''func-1a2b3c4d-hpa'', DeleteService ''func-1a2b3c4d-svc'',
       DeleteDeployment ''func-1a2b3c4d'', ReadDeployment ''func-1a2b3c4d'',
       DeleteConfigMap ''func-1a2b3c4d''], None)
   \<and> api_errors_only all_absent"
proof -
  have "wait_deleted (\<lambda>i. RaisesApi 404) ''func-1a2b3c4d'' 0 30
          = ([ReadDeployment ''func-1a2b3c4d''], None)"
    by (rule wait_deleted_absent) simp_all
  then have h: "delete_function all_absent ''func-1a2b3c4d'' =
     ([DeleteHPA ''func-1a2b3c4d-hpa'', DeleteService ''func-1a2b3c4d-svc'',
       DeleteDeployment ''func-1a2b3c4d'', ReadDeployment ''func-1a2b3c4d'',
       DeleteConfigMap ''func-1a2b3c4d''], None)"
    by (simp add: delete_function_def all_absent_def)
  from delete_function_teardown [OF h] h show ?thesis by simp
qed

section \<open>Properties of the Invocation Gateway\<close>

lemma structured_failure_result [simp]: "structured_failure (failure_result e l ms)"
  by (simp add: failure_result_def)

lemma execution_time_failure_result [simp]: "execution_time_ms (failure_result e l ms) = Some ms"
  by (simp add: failure_result_def)

lemma classify_failure:
  "failure_mode outcome \<Longrightarrow>
     structured_failure (classify_response outcome t)
     \<and> execution_time_ms (classify_response outcome t) = Some (if outcome = PostTimeout then t * 1000 else 0)"
  by (cases outcome)
     (auto simp: classify_response_def raise_for_status_def Let_def split: option.splits sum.splits)

lemma classify_passes:
  "\<not> failure_mode outcome \<Longrightarrow>
     \<exists>resp v. outcome = PostResponse resp \<and> parsed resp = Inr v \<and> classify_response outcome t = v"
  by (cases outcome)
     (auto simp: classify_response_def raise_for_status_def Let_def split: option.splits sum.splits)

text \<open>
  Claim C7, amended. When the gateway runs inside the cluster, or its tunnel is up,
  \<open>invoke_function\<close> returns a value and raises nothing. Every failure mode of the
  request (timeout, connection failure, any other exception, HTTP status from 400 to
  599, content type that is not JSON, blank body, body that does not parse) gives a
  result with \<open>success\<close> false, an error text, logs, \<open>memory_used_mb = 0\<close> and
  \<open>execution_time_ms\<close> equal to \<open>timeout_seconds * 1000\<close> for the timeout and \<open>0\<close>
  otherwise. In every other case the result is the parsed body of the answer.
\<close>

theorem gateway_failures_structured:
  assumes "in_cluster env \<or> tunnel env = TunnelUp"
  shows "\<exists>r. invoke_function env sname t = Inr r
           \<and> (failure_mode (post env) \<longrightarrow>
                structured_failure r
                \<and> execution_time_ms r = Some (if post env = PostTimeout then t * 1000 else 0))
           \<and> (\<not> failure_mode (post env) \<longrightarrow>
                (\<exists>resp. post env = PostResponse resp \<and> parsed resp = Inr r))"
proof -
  have "invoke_function env sname t = Inr (classify_response (post env) t)"
    using assms by (auto simp: invoke_function_def)
  with classify_failure [of "post env" t] classify_passes [of "post env" t]
  show ?thesis by auto
qed

theorem gateway_failures_structured_witness:
  "in_cluster (answers 500 ''Internal Server Error'')
   \<and> invoke_function (answers 500 ''Internal Server Error'') ''func-1a2b3c4d-svc'' 30 =
       Inr (failure_result
         (''Function returned HTTP error unknown: 500 Server Error: Internal Server Error for url: ''
            @ ''http://func-1a2b3c4d-svc.fnbox-functions.svc.cluster.local:8080/invoke'') [] 0)"
proof -
  have c: "in_cluster (answers 500 ''Internal Server Error'')"
    by (simp add: answers_def)
  have s: "str_nat 500 = ''500''" by code_simp
  have "failure_mode (post (answers 500 ''Internal Server Error''))"
    by (simp add: answers_def)
  with gateway_failures_structured [of "answers 500 ''Internal Server Error''" "''func-1a2b3c4d-svc''" 30] c
  have "\<exists>r. invoke_function (answers 500 ''Internal Server Error'') ''func-1a2b3c4d-svc'' 30 = Inr r
          \<and> structured_failure r" by auto
  moreover have "invoke_function (answers 500 ''Internal Server Error'') ''func-1a2b3c4d-svc'' 30 =
       Inr (failure_result
         (''Function returned HTTP error unknown: 500 Server Error: Internal Server Error for url: ''
            @ ''http://func-1a2b3c4d-svc.fnbox-functions.svc.cluster.local:8080/invoke'') [] 0)"
    by (simp add: invoke_function_def answers_def classify_response_def raise_for_status_def s)
  ultimately show ?thesis using c by simp
qed

text \<open>
  Claim C7, as stated, fails. Outside the cluster, a tunnel process that has exited
  makes \<open>invoke_function\<close> raise: the tunnel is set up before the \<open>try\<close> that
  classifies failures. And a status outside 200 to 299 is a failure only from 400 to
  599: an answer with status 304 and a JSON body is returned as it is.
\<close>

theorem gateway_exception_escapes:
  "invoke_function tunnel_down ''func-1a2b3c4d-svc'' 30 =
     Inl (PlainException
       ''Could not establish port-forward to func-1a2b3c4d-svc: kubectl port-forward process exited unexpectedly'')
   \<and> invoke_function (answers 304 ''Not Modified'') ''func-1a2b3c4d-svc'' 30 = Inr (JsonDict empty_dict)
   \<and> \<not> structured_failure (JsonDict empty_dict)"
  by (simp add: invoke_function_def tunnel_down_def answers_def classify_response_def
        raise_for_status_def blank_def py_isspace_def empty_dict_def)

section \<open>Properties of the invoke and test jobs\<close>

lemma length_filter_sort_key: "length (filter P (sort_key f xs)) = length (filter P xs)"
proof -
  have "mset (filter P (sort_key f xs)) = mset (filter P xs)" by simp
  then show ?thesis by (metis size_mset)
qed

lemma length_filter_rev_sort: "length (filter P (rev (sort_key f xs))) = length (filter P xs)"
  by (simp add: rev_filter [symmetric] length_filter_sort_key)

lemma length_recent: "length (recent_invocations d fid now) = min 10 (length (window d fid now))"
  by (simp add: recent_invocations_def min_def)

lemma recent_full_window:
  "length (window d fid now) \<le> 10 \<Longrightarrow>
     length (filter P (recent_invocations d fid now)) = length (filter P (window d fid now))"
  by (simp add: recent_invocations_def length_filter_rev_sort)

lemma circuit_open_full:
  assumes "length (window d fid now) = 10"
    and "8 \<le> length (filter (\<lambda>inv. inv_status inv = IError) (window d fid now))"
  shows "circuit_open d fid now"
  using assms by (simp add: circuit_open_def Let_def length_recent recent_full_window)

lemma circuit_closed_short:
  "length (window d fid now) \<le> 9 \<Longrightarrow> \<not> circuit_open d fid now"
  by (simp add: circuit_open_def Let_def length_recent)

lemma filter_take_le: "length (filter P (take n xs)) \<le> length (filter P xs)"
proof -
  have "length (filter P xs) = length (filter P (take n xs)) + length (filter P (drop n xs))"
    by (metis append_take_drop_id filter_append length_append)
  then show ?thesis by simp
qed

lemma circuit_open_errors:
  "circuit_open d fid now \<Longrightarrow> 8 \<le> length (filter (\<lambda>inv. inv_status inv = IError) (window d fid now))"
proof -
  assume "circuit_open d fid now"
  then have "8 \<le> length (filter (\<lambda>inv. inv_status inv = IError) (recent_invocations d fid now))"
    by (simp add: circuit_open_def Let_def split: if_splits)
  also have "\<dots> \<le> length (filter (\<lambda>inv. inv_status inv = IError) (rev (sort_key created_at (window d fid now))))"
    unfolding recent_invocations_def by (rule filter_take_le)
  also have "\<dots> = length (filter (\<lambda>inv. inv_status inv = IError) (window d fid now))"
    by (rule length_filter_rev_sort)
  finally show ?thesis .
qed

lemma job_rejects_open:
  assumes "circuit_open d fid (now_check inp)"
  shows "\<exists>msg. invocation_job nd d inp fid ev rid = (d, Returns (rejected msg))"
  using assms by (auto simp: invocation_job_def split: option.splits)

lemma job_rejects_open_deployed:
  assumes "circuit_open d fid (now_check inp)"
    and "function_table d fid = Some func" and "status func = FActive" and "truthy (service_name func)"
  shows "invocation_job nd d inp fid ev rid = (d, Returns (rejected high_failure_rate_msg))"
  using assms by (simp add: invocation_job_def)

lemma job_rejects_busy:
  assumes "5 \<le> running_invocations d fid"
  shows "\<exists>msg. invocation_job nd d inp fid ev rid = (d, Returns (rejected msg))"
  using assms by (auto simp: invocation_job_def split: option.splits)


text \<open>
  Claim C2. When exactly ten invocations of a function were created in the five minutes
  before the check and at least eight of them have status \<open>error\<close>, the invoke job
  and the test job both return a failure with no invocation id, leave the database as
  it was (no invocation row is created) and do not ask for a retry. For a deployed
  function the failure is the circuit breaker's.
\<close>

theorem circuit_breaker_rejects:
  assumes "length (window d fid (now_check inp)) = 10"
    and "8 \<le> length (filter (\<lambda>inv. inv_status inv = IError) (window d fid (now_check inp)))"
  shows "(\<exists>msg. invoke_function_task d inp fid ev rid = (d, Returns (rejected msg)))
       \<and> (\<exists>msg. test_function_task d inp fid ev = (d, Returns (rejected msg)))
       \<and> (\<forall>func. function_table d fid = Some func \<and> status func = FActive \<and> truthy (service_name func)
             \<longrightarrow> invoke_function_task d inp fid ev rid = (d, Returns (rejected high_failure_rate_msg))
               \<and> test_function_task d inp fid ev = (d, Returns (rejected high_failure_rate_msg)))"
proof -
  have op: "circuit_open d fid (now_check inp)"
    using assms by (rule circuit_open_full)
  show ?thesis
    unfolding invoke_function_task_def test_function_task_def
    using job_rejects_open [OF op] job_rejects_open_deployed [OF op] by blast
qed

lemma sample_window_all:
  "length sts \<le> 60000000 \<Longrightarrow> window (sample_db sts) ''0f8fad5b'' 60000000 = invocations (sample_db sts)"
  by (auto simp: window_def sample_db_def sample_invocation_def five_minutes_def
        filter_id_conv in_set_enumerate_eq)

lemma sample_errors:
  "filter (\<lambda>inv. inv_status inv = st) (invocations (sample_db sts))
     = map (\<lambda>(i, st). sample_invocation i st (int i)) (filter (\<lambda>(i, s). s = st) (enumerate 1 sts))"
  by (simp add: sample_db_def filter_map comp_def sample_invocation_def case_prod_unfold)

theorem circuit_breaker_rejects_witness:
  "invoke_function_task
     (sample_db [IError, IError, ISuccess, IError, IError, IError, ITimeout, IError, IError, IError])
     sample_inputs ''0f8fad5b'' ''{}'' None
   = (sample_db [IError, IError, ISuccess, IError, IError, IError, ITimeout, IError, IError, IError],
      Returns (rejected high_failure_rate_msg))"
proof -
  let ?sts = "[IError, IError, ISuccess, IError, IError, IError, ITimeout, IError, IError, IError]"
  have w: "window (sample_db ?sts) ''0f8fad5b'' (now_check sample_inputs) = invocations (sample_db ?sts)"
    using sample_window_all [of ?sts] by (simp add: sample_inputs_def)
  have h1: "length (window (sample_db ?sts) ''0f8fad5b'' (now_check sample_inputs)) = 10"
    unfolding w by (simp add: sample_db_def)
  have h2: "8 \<le> length (filter (\<lambda>inv. inv_status inv = IError)
               (window (sample_db ?sts) ''0f8fad5b'' (now_check sample_inputs)))"
    unfolding w sample_errors by (simp add: enumerate_eq_zip upt_rec)
  have f: "function_table (sample_db ?sts) ''0f8fad5b'' = Some sample_function
           \<and> status sample_function = FActive \<and> truthy (service_name sample_function)"
    by (simp add: sample_db_def sample_function_def)
  from circuit_breaker_rejects [OF h1 h2, of "''{}''" None] f show ?thesis by blast
qed


lemma job_rejects_busy_deployed:
  assumes "5 \<le> running_invocations d fid" and "\<not> circuit_open d fid (now_check inp)"
    and "function_table d fid = Some func" and "status func = FActive" and "truthy (service_name func)"
  shows "invocation_job nd d inp fid ev rid
           = (d, Returns (rejected (too_many_msg (running_invocations d fid))))"
  using assms by (simp add: invocation_job_def)

text \<open>
  Claim C3. When a function has at least five invocations in status \<open>pending\<close> or
  \<open>running\<close>, the invoke job and the test job both return a failure with no
  invocation id and leave the database as it was. For a deployed function whose circuit
  breaker is closed the failure is the concurrency cap's, with the count in its text.
\<close>

theorem admission_control_rejects:
  assumes "5 \<le> running_invocations d fid"
  shows "(\<exists>msg. invoke_function_task d inp fid ev rid = (d, Returns (rejected msg)))
       \<and> (\<exists>msg. test_function_task d inp fid ev = (d, Returns (rejected msg)))
       \<and> (\<forall>func. function_table d fid = Some func \<and> status func = FActive \<and> truthy (service_name func)
                  \<and> \<not> circuit_open d fid (now_check inp)
             \<longrightarrow> invoke_function_task d inp fid ev rid
                   = (d, Returns (rejected (too_many_msg (running_invocations d fid))))
               \<and> test_function_task d inp fid ev
                   = (d, Returns (rejected (too_many_msg (running_invocations d fid)))))"
  unfolding invoke_function_task_def test_function_task_def
  using job_rejects_busy [OF assms] job_rejects_busy_deployed [OF assms] by blast

lemma length_filter_enumerate:
  "length (filter (\<lambda>p. P (snd p)) (enumerate n xs)) = length (filter P xs)"
  by (induction xs arbitrary: n) auto

lemma sample_running:
  "running_invocations (sample_db sts) ''0f8fad5b''
     = length (filter (\<lambda>s. s = IPending \<or> s = IRunning) sts)"
  using length_filter_enumerate [of "\<lambda>s. s = IPending \<or> s = IRunning" "Suc 0" sts]
  by (simp add: running_invocations_def sample_db_def filter_map comp_def sample_invocation_def
        case_prod_unfold)

theorem admission_control_rejects_witness:
  "invoke_function_task (sample_db [IPending, IRunning, IRunning, ISuccess, IPending, IRunning])
     sample_inputs ''0f8fad5b'' ''{}'' None
   = (sample_db [IPending, IRunning, IRunning, ISuccess, IPending, IRunning],
      Returns (rejected
        ''Too many concurrent invocations (5). Please wait for previous invocations to complete.''))"
proof -
  let ?sts = "[IPending, IRunning, IRunning, ISuccess, IPending, IRunning]"
  have r: "running_invocations (sample_db ?sts) ''0f8fad5b'' = 5"
    by (simp add: sample_running)
  then have h: "5 \<le> running_invocations (sample_db ?sts) ''0f8fad5b''" by simp
  have w: "length (window (sample_db ?sts) ''0f8fad5b'' (now_check sample_inputs)) \<le> 9"
    using sample_window_all [of ?sts] by (simp add: sample_inputs_def sample_db_def)
  have f: "function_table (sample_db ?sts) ''0f8fad5b'' = Some sample_function
           \<and> status sample_function = FActive \<and> truthy (service_name sample_function)
           \<and> \<not> circuit_open (sample_db ?sts) ''0f8fad5b'' (now_check sample_inputs)"
    using circuit_closed_short [OF w] by (simp add: sample_db_def sample_function_def)
  have m: "too_many_msg 5
      = ''Too many concurrent invocations (5). Please wait for previous invocations to complete.''"
    by code_simp
  from admission_control_rejects [OF h, of sample_inputs "''{}''" None] f r m show ?thesis by auto
qed

lemma rejected_eq: "rejected a = rejected b \<longleftrightarrow> a = b"
  by (simp add: rejected_def)

lemma too_many_not_high: "too_many_msg n \<noteq> high_failure_rate_msg"
  by (simp add: too_many_msg_def high_failure_rate_msg_def)

lemma not_found_not_high: "''Function not found'' \<noteq> high_failure_rate_msg"
  by (simp add: high_failure_rate_msg_def)

lemma unique_not_high:
  "''UNIQUE constraint failed: functions_functioninvocation.request_id'' \<noteq> high_failure_rate_msg"
  by (simp add: high_failure_rate_msg_def)

lemma with_id_not_rejected:
  "\<lparr> res_success = a, res_error = b, res_invocation_id = Some i \<rparr> \<noteq> rejected m"
  by (simp add: rejected_def)

lemma job_not_breaker:
  assumes "\<not> circuit_open d fid (now_check inp)"
    and "nd \<noteq> high_failure_rate_msg"
  shows "snd (invocation_job nd d inp fid ev rid) \<noteq> Returns (rejected high_failure_rate_msg)"
  using assms
  by (simp add: invocation_job_def Let_def rejected_eq too_many_not_high create_invocation_def
       not_found_not_high unique_not_high with_id_not_rejected
       split: option.split sum.split json_body.split prod.split)

text \<open>
  Claim C10. With at most nine invocations in the five-minute window the circuit breaker
  is closed, however many of them failed, and neither job returns the breaker's
  failure. Only status \<open>error\<close> counts: with fewer than eight \<open>error\<close> rows in the
  window the breaker is closed whatever the number of \<open>timeout\<close> rows.
\<close>

theorem breaker_needs_full_window:
  assumes "length (window d fid (now_check inp)) \<le> 9
           \<or> length (filter (\<lambda>inv. inv_status inv = IError) (window d fid (now_check inp))) < 8"
  shows "\<not> circuit_open d fid (now_check inp)
       \<and> snd (invoke_function_task d inp fid ev rid) \<noteq> Returns (rejected high_failure_rate_msg)
       \<and> snd (test_function_task d inp fid ev) \<noteq> Returns (rejected high_failure_rate_msg)"
proof -
  have c: "\<not> circuit_open d fid (now_check inp)"
    using assms circuit_closed_short [of d fid "now_check inp"] circuit_open_errors [of d fid "now_check inp"]
    by auto
  show ?thesis
    unfolding invoke_function_task_def test_function_task_def
    using c job_not_breaker [OF c] by (simp add: high_failure_rate_msg_def)
qed

theorem breaker_needs_full_window_witness:
  "\<not> circuit_open (sample_db [IError, IError, IError, IError, IError, IError, IError, IError, IError])
        ''0f8fad5b'' (now_check sample_inputs)
   \<and> \<not> circuit_open
        (sample_db [ITimeout, ITimeout, ITimeout, ITimeout, ITimeout, ITimeout, ITimeout, ITimeout,
                    ITimeout, ITimeout, IError, IError])
        ''0f8fad5b'' (now_check sample_inputs)"
proof -
  let ?e = "[IError, IError, IError, IError, IError, IError, IError, IError, IError]"
  let ?t = "[ITimeout, ITimeout, ITimeout, ITimeout, ITimeout, ITimeout, ITimeout, ITimeout,
                    ITimeout, ITimeout, IError, IError]"
  have w: "window (sample_db ?e) ''0f8fad5b'' (now_check sample_inputs) = invocations (sample_db ?e)"
    using sample_window_all [of ?e] by (simp add: sample_inputs_def)
  have h1: "length (window (sample_db ?e) ''0f8fad5b'' (now_check sample_inputs)) \<le> 9"
    unfolding w by (simp add: sample_db_def)
  have w2: "window (sample_db ?t) ''0f8fad5b'' (now_check sample_inputs) = invocations (sample_db ?t)"
    using sample_window_all [of ?t] by (simp add: sample_inputs_def)
  have h2: "length (filter (\<lambda>inv. inv_status inv = IError)
               (window (sample_db ?t) ''0f8fad5b'' (now_check sample_inputs))) < 8"
    unfolding w2 sample_errors by (simp add: enumerate_eq_zip upt_rec)
  from breaker_needs_full_window [of "sample_db ?e" "''0f8fad5b''" sample_inputs "''{}''" None] h1
       breaker_needs_full_window [of "sample_db ?t" "''0f8fad5b''" sample_inputs "''{}''" None] h2
  show ?thesis by blast
qed

section \<open>Properties of the deploy and undeploy jobs\<close>

lemma deploy_task_saves:
  assumes "function_table d u = Some func"
  shows "(\<exists>b. fst (deploy_function_task d mgr ns now k u)
               = [func\<lparr>status := FDeploying\<rparr>, b]
             \<and> ((status b = FActive \<and> bound b) \<or> (status b = FError \<and> binding b = binding func))
             \<and> function_table (fst (snd (deploy_function_task d mgr ns now k u))) u = Some b)"
  using assms
  by (auto simp: deploy_function_task_def Let_def bound_def binding_def save_function_def
        split: sum.splits option.splits prod.splits)

lemma undeploy_task_saves:
  assumes "function_table d u = Some func"
  shows "(\<exists>b. fst (undeploy_function_task d mgr k u)
               = [func\<lparr>status := FUndeploying\<rparr>, b]
             \<and> ((status b = FDraft \<and> binding b = (None, None, None))
                  \<or> (status b = FError \<and> binding b = binding func))
             \<and> function_table (fst (snd (undeploy_function_task d mgr k u))) u = Some b)"
  using assms
  by (auto simp: undeploy_function_task_def Let_def bound_def binding_def save_function_def
        split: sum.splits option.splits prod.splits)

text \<open>
  Claim C1, amended. A run of the deploy job or of the undeploy job on an existing
  function saves two rows. The first moves the status to \<open>deploying\<close> (or
  \<open>undeploying\<close>) from whatever it was and keeps the binding fields. The second moves
  \<open>deploying\<close> to \<open>active\<close> with the three binding fields set, or \<open>undeploying\<close> to
  \<open>draft\<close> with the three binding fields cleared, or either to \<open>error\<close> with the
  binding fields kept. So every saved row with status \<open>active\<close> has its binding fields
  set, every saved \<open>draft\<close> row has them cleared, and every other saved row has the
  binding fields the function had before the job; the database holds the last saved row.
\<close>

theorem lifecycle_steps:
  assumes "function_table d u = Some func"
  shows "steps_ok func (fst (deploy_function_task d mgr ns now k u))
       \<and> steps_ok func (fst (undeploy_function_task d mgr' k' u))
       \<and> (\<forall>f \<in> set (fst (deploy_function_task d mgr ns now k u))
                 \<union> set (fst (undeploy_function_task d mgr' k' u)).
             (status f = FActive \<longrightarrow> bound f)
             \<and> (status f = FDraft \<longrightarrow> binding f = (None, None, None))
             \<and> (status f \<noteq> FActive \<and> status f \<noteq> FDraft \<longrightarrow> binding f = binding func))
       \<and> function_table (fst (snd (deploy_function_task d mgr ns now k u))) u
           = Some (last (fst (deploy_function_task d mgr ns now k u)))
       \<and> function_table (fst (snd (undeploy_function_task d mgr' k' u))) u
           = Some (last (fst (undeploy_function_task d mgr' k' u)))"
proof -
  from deploy_task_saves [OF assms, of mgr ns now k] obtain b where
    b: "fst (deploy_function_task d mgr ns now k u) = [func\<lparr>status := FDeploying\<rparr>, b]"
       "(status b = FActive \<and> bound b) \<or> (status b = FError \<and> binding b = binding func)"
       "function_table (fst (snd (deploy_function_task d mgr ns now k u))) u = Some b"
    by blast
  from undeploy_task_saves [OF assms, of mgr' k'] obtain c where
    c: "fst (undeploy_function_task d mgr' k' u) = [func\<lparr>status := FUndeploying\<rparr>, c]"
       "(status c = FDraft \<and> binding c = (None, None, None))
          \<or> (status c = FError \<and> binding c = binding func)"
       "function_table (fst (snd (undeploy_function_task d mgr' k' u))) u = Some c"
    by blast
  have 1: "steps_ok func [func\<lparr>status := FDeploying\<rparr>, b]"
    using b(2) by (auto simp: lifecycle_step_def binding_def)
  have 2: "steps_ok func [func\<lparr>status := FUndeploying\<rparr>, c]"
    using c(2) by (auto simp: lifecycle_step_def binding_def)
  have 3: "\<forall>f \<in> set [func\<lparr>status := FDeploying\<rparr>, b] \<union> set [func\<lparr>status := FUndeploying\<rparr>, c].
             (status f = FActive \<longrightarrow> bound f)
             \<and> (status f = FDraft \<longrightarrow> binding f = (None, None, None))
             \<and> (status f \<noteq> FActive \<and> status f \<noteq> FDraft \<longrightarrow> binding f = binding func)"
    using b(2) c(2) by (auto simp: binding_def)
  show ?thesis
    unfolding b(1) c(1) using 1 2 3 b(3) c(3) by simp
qed


lemma ready_at_once:
  "0 < r \<Longrightarrow> wait_for_deployment (\<lambda>i. ReadyReplicas r) n 60 0 = ([ReadDeployment n], Inr True)"
  by (simp add: wait_for_deployment.simps)

lemma deploy_ready:
  "snd (deploy_function ready_cluster ''0f8fad5b'' ''python3.11'' c [] 128 30 1000)
     = Inr \<lparr> info_deployment_name = ''func-0f8fad5b'', info_service_name = ''func-0f8fad5b-svc'',
             info_service_ip = ''10.96.0.17'', info_pod_name = Some ''func-0f8fad5b-7c9d8'',
             info_status = ''running'' \<rparr>"
  by (simp add: deploy_function_def RUNTIME_IMAGES_def create_function_configmap_def
        create_deployment_def create_service_def create_hpa_def ready_cluster_def
        deployment_timeout_def ready_at_once Let_def)

lemma deploy_refused:
  "snd (deploy_function refusing_cluster ''0f8fad5b'' ''python3.11'' c [] 128 30 1000)
     = Inl (ApiException 403)"
  by (simp add: deploy_function_def RUNTIME_IMAGES_def create_function_configmap_def
        create_deployment_def refusing_cluster_def ready_cluster_def Let_def)

lemma draft_fields:
  "runtime draft_function = ''python3.11''" "memory_mb draft_function = 128"
  "timeout_seconds draft_function = 30" "cpu_millicores draft_function = 1000"
  "depset_packages draft_function = []"
  by (simp_all add: draft_function_def sample_function_def depset_packages_def)

lemma deploy_draft_ok:
  "fst (deploy_function_task draft_db (Inr ready_cluster) (Some ''fnbox-functions'') 100 0 ''0f8fad5b'')
     = [draft_function\<lparr>status := FDeploying\<rparr>,
        draft_function\<lparr> status := FActive, deployment_name := Some ''func-0f8fad5b'',
                         service_name := Some ''func-0f8fad5b-svc'',
                         k8s_namespace := Some ''fnbox-functions'', last_deployed_at := Some 100 \<rparr>]"
  by (simp add: deploy_function_task_def draft_db_def draft_fields deploy_ready Let_def)

theorem lifecycle_steps_witness:
  "function_table draft_db ''0f8fad5b'' = Some draft_function
   \<and> map status (fst (deploy_function_task draft_db (Inr ready_cluster) (Some ''fnbox-functions'') 100 0
                         ''0f8fad5b'')) = [FDeploying, FActive]
   \<and> steps_ok draft_function
        (fst (deploy_function_task draft_db (Inr ready_cluster) (Some ''fnbox-functions'') 100 0
                ''0f8fad5b''))"
proof -
  have h: "function_table draft_db ''0f8fad5b'' = Some draft_function"
    by (simp add: draft_db_def)
  from lifecycle_steps [OF h, of "Inr ready_cluster" "Some ''fnbox-functions''" 100 0 "Inr all_absent" 0]
  have "steps_ok draft_function
        (fst (deploy_function_task draft_db (Inr ready_cluster) (Some ''fnbox-functions'') 100 0
                ''0f8fad5b''))" by blast
  with h show ?thesis by (simp add: deploy_draft_ok)
qed

lemma all_absent_teardown: "snd (delete_function all_absent n) = None"
proof -
  have "wait_deleted (\<lambda>i. RaisesApi 404) n 0 30 = ([ReadDeployment n], None)"
    by (rule wait_deleted_absent) simp_all
  then show ?thesis by (simp add: delete_function_def all_absent_def)
qed

text \<open>
  Claim C1, as stated, fails. The undeploy job on an active function first saves status
  \<open>undeploying\<close> with all three binding fields still set: the status has left
  \<open>active\<close> and the fields are not null. And the deploy job, run again after a failed
  attempt, moves the status from \<open>error\<close> to \<open>deploying\<close>.
\<close>

theorem lifecycle_counterexample:
  "status sample_function = FActive
   \<and> map (\<lambda>f. (status f, binding f))
       (fst (undeploy_function_task (sample_db []) (Inr all_absent) 0 ''0f8fad5b''))
     = [(FUndeploying, Some ''func-0f8fad5b'', Some ''func-0f8fad5b-svc'', Some ''fnbox-functions''),
        (FDraft, None, None, None)]
   \<and> map status
       (fst (deploy_function_task
               (save_function draft_db ''0f8fad5b'' (draft_function\<lparr>status := FError\<rparr>))
               (Inr ready_cluster) (Some ''fnbox-functions'') 100 1 ''0f8fad5b''))
     = [FDeploying, FActive]"
  by (simp add: undeploy_function_task_def sample_db_def sample_function_def all_absent_teardown
        binding_def Let_def deploy_function_task_def save_function_def draft_db_def draft_function_def
        depset_packages_def deploy_ready)

section \<open>Properties of the Trigger Scheduler Sync\<close>

lemma disable_trigger_triggers:
  "triggers (disable_trigger st t s)
     = map (\<lambda>r. if enabled t \<and> trigger_uuid r = trigger_uuid t then r\<lparr>enabled := False\<rparr> else r)
         (triggers s)"
  by (auto simp: disable_trigger_def save_trigger_enabled_def manage_scheduled_trigger_def
        delete_periodic_task_def Let_def)

lemma disable_trigger_tasks:
  "periodic_tasks (disable_trigger st t s)
     = map (\<lambda>p. if pt_name p = task_name t then p\<lparr>pt_enabled := False\<rparr> else p)
         (if enabled t then filter (\<lambda>p. pt_name p \<noteq> task_name t) (periodic_tasks s)
          else periodic_tasks s)"
  by (auto simp: disable_trigger_def save_trigger_enabled_def manage_scheduled_trigger_def
        delete_periodic_task_def Let_def task_name_def)

lemma fold_triggers:
  "r' \<in> set (triggers (fold (disable_trigger st) ts s)) \<Longrightarrow>
     \<exists>r \<in> set (triggers s).
        trigger_uuid r' = trigger_uuid r \<and> trigger_function r' = trigger_function r
        \<and> trigger_type r' = trigger_type r
        \<and> (enabled r' \<longrightarrow> enabled r \<and> (\<forall>t \<in> set ts. enabled t \<longrightarrow> trigger_uuid t \<noteq> trigger_uuid r))
        \<and> (r' = r \<or> r' = r\<lparr>enabled := False\<rparr>)"
proof (induction ts arbitrary: s)
  case Nil
  then show ?case by auto
next
  case (Cons t ts)
  from Cons.prems have "r' \<in> set (triggers (fold (disable_trigger st) ts (disable_trigger st t s)))"
    by simp
  from Cons.IH [OF this] obtain m where m:
    "m \<in> set (triggers (disable_trigger st t s))"
    "trigger_uuid r' = trigger_uuid m" "trigger_function r' = trigger_function m"
    "trigger_type r' = trigger_type m"
    "enabled r' \<longrightarrow> enabled m \<and> (\<forall>t \<in> set ts. enabled t \<longrightarrow> trigger_uuid t \<noteq> trigger_uuid m)"
    "r' = m \<or> r' = m\<lparr>enabled := False\<rparr>" by blast
  from m(1) obtain r where r: "r \<in> set (triggers s)"
    "m = (if enabled t \<and> trigger_uuid r = trigger_uuid t then r\<lparr>enabled := False\<rparr> else r)"
    unfolding disable_trigger_triggers by auto
  show ?case
  proof (intro bexI [of _ r] conjI)
    show "r \<in> set (triggers s)" by fact
    show "trigger_uuid r' = trigger_uuid r" using m(2) r(2) by (simp split: if_splits)
    show "trigger_function r' = trigger_function r" using m(3) r(2) by (simp split: if_splits)
    show "trigger_type r' = trigger_type r" using m(4) r(2) by (simp split: if_splits)
    show "enabled r' \<longrightarrow> enabled r \<and> (\<forall>t \<in> set (t # ts). enabled t \<longrightarrow> trigger_uuid t \<noteq> trigger_uuid r)"
      using m(5) r(2) by (auto split: if_splits)
    show "r' = r \<or> r' = r\<lparr>enabled := False\<rparr>" using m(6) r(2) by (auto split: if_splits)
  qed
qed

lemma fold_tasks:
  "p' \<in> set (periodic_tasks (fold (disable_trigger st) ts s)) \<Longrightarrow>
     \<exists>p \<in> set (periodic_tasks s).
        pt_name p' = pt_name p
        \<and> (pt_enabled p' \<longrightarrow> p' = p \<and> (\<forall>t \<in> set ts. pt_name p \<noteq> task_name t))"
proof (induction ts arbitrary: s)
  case Nil
  then show ?case by auto
next
  case (Cons t ts)
  from Cons.prems have "p' \<in> set (periodic_tasks (fold (disable_trigger st) ts (disable_trigger st t s)))"
    by simp
  from Cons.IH [OF this] obtain m where m:
    "m \<in> set (periodic_tasks (disable_trigger st t s))" "pt_name p' = pt_name m"
    "pt_enabled p' \<longrightarrow> p' = m \<and> (\<forall>t \<in> set ts. pt_name m \<noteq> task_name t)" by blast
  from m(1) obtain p where p: "p \<in> set (periodic_tasks s)"
    "m = (if pt_name p = task_name t then p\<lparr>pt_enabled := False\<rparr> else p)"
    unfolding disable_trigger_tasks by (auto split: if_splits)
  show ?case
  proof (intro bexI [of _ p] conjI)
    show "p \<in> set (periodic_tasks s)" by fact
    show "pt_name p' = pt_name p" using m(2) p(2) by (simp split: if_splits)
    show "pt_enabled p' \<longrightarrow> p' = p \<and> (\<forall>t \<in> set (t # ts). pt_name p \<noteq> task_name t)"
      using m(3) p(2) by (auto split: if_splits)
  qed
qed

lemma fold_triggers_length:
  "map trigger_uuid (triggers (fold (disable_trigger st) ts s)) = map trigger_uuid (triggers s)"
  by (induction ts arbitrary: s) (simp_all add: disable_trigger_triggers comp_def if_distrib cong: if_cong)

text \<open>
  Claim C9. When a function that already exists is saved with a status other than
  \<open>active\<close>, then afterwards none of its scheduled triggers is enabled and no periodic
  job of any of its scheduled triggers is enabled (the job of a trigger that was enabled
  is removed by the trigger's own save, the job of any other is switched off); no
  trigger is added or removed. A save with status \<open>active\<close> changes nothing: it
  re-enables no trigger and no job.
\<close>

theorem triggers_disabled_on_undeploy:
  assumes "st \<noteq> FActive"
  shows "(\<forall>t \<in> set (triggers (disable_triggers_on_undeploy s u st False)).
            trigger_function t = u \<and> trigger_type t = ''scheduled'' \<longrightarrow> \<not> enabled t)
       \<and> (\<forall>t \<in> set (triggers s). trigger_function t = u \<and> trigger_type t = ''scheduled'' \<longrightarrow>
            (\<forall>p \<in> set (periodic_tasks (disable_triggers_on_undeploy s u st False)).
               pt_name p = task_name t \<longrightarrow> \<not> pt_enabled p))
       \<and> map trigger_uuid (triggers (disable_triggers_on_undeploy s u st False))
           = map trigger_uuid (triggers s)
       \<and> disable_triggers_on_undeploy s2 u FActive c = s2"
proof -
  let ?owned = "filter (\<lambda>t. trigger_function t = u \<and> trigger_type t = ''scheduled'') (triggers s)"
  have eq: "disable_triggers_on_undeploy s u st False = fold (disable_trigger st) ?owned s"
    using assms by (simp add: disable_triggers_on_undeploy_def)
  have a: "\<forall>t \<in> set (triggers (fold (disable_trigger st) ?owned s)).
            trigger_function t = u \<and> trigger_type t = ''scheduled'' \<longrightarrow> \<not> enabled t"
  proof (intro ballI impI notI)
    fix t assume t: "t \<in> set (triggers (fold (disable_trigger st) ?owned s))"
      "trigger_function t = u \<and> trigger_type t = ''scheduled''" "enabled t"
    from fold_triggers [OF t(1)] t(2,3) obtain r where
      r: "r \<in> set (triggers s)" "trigger_function r = u" "trigger_type r = ''scheduled''" "enabled r"
         "\<forall>x \<in> set ?owned. enabled x \<longrightarrow> trigger_uuid x \<noteq> trigger_uuid r" by auto
    from r(1-3) have "r \<in> set ?owned" by simp
    with r(4,5) show False by blast
  qed
  have b: "\<forall>t \<in> set (triggers s). trigger_function t = u \<and> trigger_type t = ''scheduled'' \<longrightarrow>
            (\<forall>p \<in> set (periodic_tasks (fold (disable_trigger st) ?owned s)).
               pt_name p = task_name t \<longrightarrow> \<not> pt_enabled p)"
  proof (intro ballI impI notI)
    fix t p assume t: "t \<in> set (triggers s)" "trigger_function t = u \<and> trigger_type t = ''scheduled''"
      and p: "p \<in> set (periodic_tasks (fold (disable_trigger st) ?owned s))"
        "pt_name p = task_name t" "pt_enabled p"
    from t have "t \<in> set ?owned" by simp
    with fold_tasks [OF p(1)] p(2,3) show False by auto
  qed
  show ?thesis
    unfolding eq using a b by (simp add: fold_triggers_length disable_triggers_on_undeploy_def)
qed


theorem triggers_disabled_on_undeploy_witness:
  "FUndeploying \<noteq> FActive
   \<and> map (\<lambda>t. (trigger_uuid t, enabled t))
       (triggers (disable_triggers_on_undeploy sample_scheduler ''0f8fad5b'' FUndeploying False))
     = [(''a1'', False), (''b2'', False), (''c3'', True)]
   \<and> map (\<lambda>p. (pt_name p, pt_enabled p))
       (periodic_tasks (disable_triggers_on_undeploy sample_scheduler ''0f8fad5b'' FUndeploying False))
     = [(''trigger-b2'', False), (''trigger-c3'', True)]
   \<and> disable_triggers_on_undeploy
        (disable_triggers_on_undeploy sample_scheduler ''0f8fad5b'' FUndeploying False)
        ''0f8fad5b'' FActive False
     = disable_triggers_on_undeploy sample_scheduler ''0f8fad5b'' FUndeploying False"
proof -
  have h: "FUndeploying \<noteq> FActive" by simp
  note t = triggers_disabled_on_undeploy [OF h, of sample_scheduler "''0f8fad5b''"
      "disable_triggers_on_undeploy sample_scheduler ''0f8fad5b'' FUndeploying False" False]
  have e: "disable_triggers_on_undeploy sample_scheduler ''0f8fad5b'' FUndeploying False
        = \<lparr> triggers =
         [\<lparr> trigger_uuid = ''a1'', trigger_function = ''0f8fad5b'', trigger_name = ''hourly'',
             trigger_type = ''scheduled'', schedule = Some ''0 * * * *'', enabled = False \<rparr>,
          \<lparr> trigger_uuid = ''b2'', trigger_function = ''0f8fad5b'', trigger_name = ''nightly'',
             trigger_type = ''scheduled'', schedule = Some ''0 0 * * *'', enabled = False \<rparr>,
          \<lparr> trigger_uuid = ''c3'', trigger_function = ''7e57ab1e'', trigger_name = ''other'',
             trigger_type = ''scheduled'', schedule = Some ''*/5 * * * *'', enabled = True \<rparr>],
       periodic_tasks =
         [\<lparr> pt_name = ''trigger-b2'', pt_crontab = [''0'', ''0'', ''*'', ''*'', ''*''],
             pt_task = ''functions.tasks.invoke_function_task'', pt_function_uuid = ''0f8fad5b'',
             pt_enabled = False \<rparr>,
          \<lparr> pt_name = ''trigger-c3'', pt_crontab = [''*/5'', ''*'', ''*'', ''*'', ''*''],
             pt_task = ''functions.tasks.invoke_function_task'', pt_function_uuid = ''7e57ab1e'',
             pt_enabled = True \<rparr>],
       crontab_schedules = [] \<rparr>"
    by (simp add: disable_triggers_on_undeploy_def sample_scheduler_def disable_trigger_def
          save_trigger_enabled_def manage_scheduled_trigger_def delete_periodic_task_def
          task_name_def Let_def)
  from t have "disable_triggers_on_undeploy
        (disable_triggers_on_undeploy sample_scheduler ''0f8fad5b'' FUndeploying False)
        ''0f8fad5b'' FActive False
     = disable_triggers_on_undeploy sample_scheduler ''0f8fad5b'' FUndeploying False" by blast
  then show ?thesis by (simp add: e)
qed

section \<open>Properties of the Execution Agent\<close>

text \<open>
  Claim C6. When code is loaded, the module has defined the handler, and the worker
  thread is still alive when the join with the timeout comes back, \<open>execute\<close> returns
  (its result is not \<open>None\<close>): \<open>success\<close> is false, the error says that the execution
  exceeded the timeout, the logs are the standard output and the standard error captured
  so far, joined by a newline, \<open>execution_time_ms\<close> is \<open>timeout_seconds * 1000\<close> and
  \<open>memory_used_mb\<close> is 0.
\<close>

theorem handler_timeout_result:
  assumes "truthy (function_code ex)"
    and "module_run env = ModuleDefines names mout merr"
    and "handler_name ex \<in> set names"
    and "worker env = StillAlive hout herr"
  shows "execute ex env t =
           Some \<lparr> r_success = Some False, r_result = None,
                  r_error = Some (''Function execution exceeded '' @ str_int t @ '' seconds''),
                  r_logs = Some ((mout @ hout) @ newline @ (merr @ herr)),
                  r_execution_time_ms = Some (t * 1000),
                  r_memory_used_mb = Some 0 \<rparr>"
  using assms by (simp add: execute_def)

theorem handler_timeout_result_witness:
  "handle_invoke \<lparr> function_code = None, handler_name = ''handler'', env_vars = [] \<rparr> sleeper_run sleeper =
     Some (200, \<lparr> r_success = Some False, r_result = None,
                  r_error = Some ''Function execution exceeded 2 seconds'',
                  r_logs = Some (''1'' @ newline @ newline),
                  r_execution_time_ms = Some 2000,
                  r_memory_used_mb = Some 0 \<rparr>)"
proof -
  let ?ex = "load_function ''import time; def handler(event, context): print(1); time.sleep(60)''
               ''handler'' []"
  have s: "str_int 2 = ''2''" by code_simp
  have "execute ?ex sleeper_run 2 =
           Some \<lparr> r_success = Some False, r_result = None,
                  r_error = Some (''Function execution exceeded '' @ str_int 2 @ '' seconds''),
                  r_logs = Some (([] @ (''1'' @ newline)) @ newline @ ([] @ [])),
                  r_execution_time_ms = Some (2 * 1000),
                  r_memory_used_mb = Some 0 \<rparr>"
    by (rule handler_timeout_result [where names = "[''__name__'', ''__builtins__'', ''time'', ''handler'']"])
       (simp_all add: load_function_def sleeper_run_def)
  then show ?thesis
    by (simp add: handle_invoke_def sleeper_def s)
qed

end
